theory Spec2Isabelle
  imports Main "HOL-Library.Word" "HOL-Library.Multiset"
begin

section \<open>Data model of the log records\<close>

text \<open>
  Go's \<open>int64\<close> is a 64-bit word whose arithmetic wraps. Go's \<open>int\<close> is taken at its
  width on a 64-bit platform; the program only copies such values. A \<open>float32\<close> and a
  \<open>float64\<close> are kept as their IEEE-754 bit patterns: the program never computes with
  them, it only hands them to \<open>fmt.Sprintf\<close> and takes them from \<open>strconv.ParseFloat\<close>.
\<close>

type_synonym int64 = "64 word"
type_synonym goint = "64 word"
type_synonym float32 = "32 word"
type_synonym float64 = "64 word"

record ContentMatrix =
  Tag :: string
  Size :: int64
  AvgSpeed :: float32
  DownloadStartedAt :: int64
  DownloadFinishedAt :: int64
  ProvidedBy :: "string list"

record ConnectionInfo =
  BLEDiscoveredAt :: int64
  WifiConnectedAt :: int64
  RSSI :: goint
  Speed :: goint
  Frequency :: goint
  IPFSConnectedAt :: int64
  DisconnectedAt :: int64

text \<open>
  The node record repeats six field names of \<open>ConnectionInfo\<close>. Below, the fields of a
  connection-history entry are always written qualified
  (\<open>ConnectionInfo.WifiConnectedAt\<close>); the aggregators never read the node's own
  snapshot fields.
\<close>

record DiscoveredNodeMatrix =
  ConnectionAlive :: bool
  ConnectionSuccessCount :: goint
  ConnectionFailureCount :: goint
  LastSuccessfulConnectionDuration :: int64
  BLEDiscoveredAt :: int64
  WifiConnectedAt :: int64
  RSSI :: goint
  Speed :: goint
  Frequency :: goint
  IPFSConnectedAt :: int64
  DiscoveryDelays :: "int64 list"
  ConnectionHistory :: "ConnectionInfo list"

record matrix =
  ContentMatrix :: "string \<rightharpoonup> ContentMatrix"
  NodeMatrix :: "string \<rightharpoonup> DiscoveredNodeMatrix"
  TotalUptime :: int64

record Measurement =
  DataTransfer :: string
  TransferInterval :: string
  BatteryConsumption :: string

record BatteryMeasurements =
  BatteryMeasurement :: "Measurement list"

section \<open>Ranging over a Go map\<close>

text \<open>
  \<open>for _, v := range m\<close> visits every key of \<open>m\<close> once, in an order the language leaves
  open and that may differ between two range statements over the same map. The order is
  an explicit argument of every function that ranges over a map: \<open>range_order m ks\<close>
  says that \<open>ks\<close> is one of the orders the runtime may choose, and \<open>range_values m ks\<close>
  is the sequence of values the loop body then sees.
\<close>

definition range_order :: "('k \<rightharpoonup> 'v) \<Rightarrow> 'k list \<Rightarrow> bool" where
  "range_order m ks = (distinct ks \<and> set ks = dom m)"

definition range_values :: "('k \<rightharpoonup> 'v) \<Rightarrow> 'k list \<Rightarrow> 'v list" where
  "range_values m ks = List.map_filter m ks"

section \<open>The chart library, as far as the program drives it\<close>

text \<open>
  The charts of go-echarts are builders: every call stores its arguments in the chart.
  A chart is the record of what was stored. \<open>interface{}\<close> values carry their dynamic
  type.
\<close>

datatype iface =
    VInt64 int64
  | VInt goint
  | VFloat64 float64
  | VString string
  | VList "iface list"

datatype LineData = LineData iface
datatype BarData = BarData iface
datatype ParallelData = ParallelData iface

datatype GlobalOpt =
    WithTitleOpts string
  | WithXAxisOpts string
  | WithYAxisOpts string
  | WithTooltipOpts bool
  | WithLegendOpts bool string
  | WithParallelAxisList "(nat \<times> string) list"

datatype SeriesOpt =
    WithAreaStyleOpts float32
  | WithLineChartOpts bool
  | WithLabelOpts bool string

record 'd SingleSeries =
  Name :: string
  Data :: "'d list"
  Options :: "SeriesOpt list"

record 'd BaseChart =
  GlobalOptions :: "GlobalOpt list"
  MultiSeries :: "'d SingleSeries list"

record ('x, 'd) RectChart = "'d BaseChart" +
  XAxis :: "'x list"

type_synonym Line = "(nat, LineData) RectChart"
type_synonym Bar = "(string, BarData) RectChart"
type_synonym Parallel = "ParallelData BaseChart"

definition NewLine :: Line where
  "NewLine = \<lparr>GlobalOptions = [], MultiSeries = [], XAxis = []\<rparr>"

definition NewBar :: Bar where
  "NewBar = \<lparr>GlobalOptions = [], MultiSeries = [], XAxis = []\<rparr>"

definition NewParallel :: Parallel where
  "NewParallel = \<lparr>GlobalOptions = [], MultiSeries = []\<rparr>"

definition SetGlobalOptions ::
  "GlobalOpt list \<Rightarrow> ('d, 'z) BaseChart_scheme \<Rightarrow> ('d, 'z) BaseChart_scheme" where
  "SetGlobalOptions os c = c\<lparr>GlobalOptions := GlobalOptions c @ os\<rparr>"

definition SetXAxis :: "'x list \<Rightarrow> ('x, 'd) RectChart \<Rightarrow> ('x, 'd) RectChart" where
  "SetXAxis xs c = c\<lparr>XAxis := xs\<rparr>"

definition AddSeries ::
  "string \<Rightarrow> 'd list \<Rightarrow> ('d, 'z) BaseChart_scheme \<Rightarrow> ('d, 'z) BaseChart_scheme" where
  "AddSeries name items c =
     c\<lparr>MultiSeries := MultiSeries c @ [\<lparr>Name = name, Data = items, Options = []\<rparr>]\<rparr>"

definition SetSeriesOptions ::
  "SeriesOpt list \<Rightarrow> ('d, 'z) BaseChart_scheme \<Rightarrow> ('d, 'z) BaseChart_scheme" where
  "SetSeriesOptions os c =
     c\<lparr>MultiSeries := map (\<lambda>s. s\<lparr>Options := Options s @ os\<rparr>) (MultiSeries c)\<rparr>"

text \<open>The float32 constant \<open>0.2\<close> of the area style, as its bit pattern.\<close>

definition opacity_0_2 :: float32 where
  "opacity_0_2 = 0x3E4CCCCD"

text \<open>What a theorem needs of a chart: the named series and their data.\<close>

definition series_of :: "('d, 'z) BaseChart_scheme \<Rightarrow> (string \<times> 'd list) list" where
  "series_of c = map (\<lambda>s. (Name s, Data s)) (MultiSeries c)"

section \<open>The aggregators\<close>

subsection \<open>bleToWifi\<close>

text \<open>
  The loop variables \<open>xAxis\<close> and \<open>yAxis\<close> are threaded through the two nested loops.
  \<open>len(xAxis)\<close> is a slice length, kept as a natural number.
\<close>

fun bleToWifi_history ::
  "ConnectionInfo list \<Rightarrow> nat list \<times> LineData list \<Rightarrow> nat list \<times> LineData list" where
  "bleToWifi_history [] (xAxis, yAxis) = (xAxis, yAxis)"
| "bleToWifi_history (k # rest) (xAxis, yAxis) =
     (if ConnectionInfo.WifiConnectedAt k \<noteq> 0
      then bleToWifi_history rest
             (xAxis @ [length xAxis],
              yAxis @ [LineData (VInt64 (ConnectionInfo.WifiConnectedAt k
                                          - ConnectionInfo.BLEDiscoveredAt k))])
      else bleToWifi_history rest (xAxis, yAxis))"

fun bleToWifi_nodes ::
  "DiscoveredNodeMatrix list \<Rightarrow> nat list \<times> LineData list \<Rightarrow> nat list \<times> LineData list" where
  "bleToWifi_nodes [] axes = axes"
| "bleToWifi_nodes (v # rest) axes =
     bleToWifi_nodes rest (bleToWifi_history (ConnectionHistory v) axes)"

definition bleToWifi_axes :: "string list \<Rightarrow> matrix \<Rightarrow> nat list \<times> LineData list" where
  "bleToWifi_axes order data =
     bleToWifi_nodes (range_values (NodeMatrix data) order) ([], [])"

definition bleToWifi :: "string list \<Rightarrow> matrix \<Rightarrow> Line" where
  "bleToWifi order data =
     (let line = SetGlobalOptions
                   [WithTitleOpts ''Seconds from BLE discovery to Successful Wifi connection'',
                    WithXAxisOpts ''Count'',
                    WithYAxisOpts ''Seconds'',
                    WithTooltipOpts True,
                    WithLegendOpts True ''80%'']
                   NewLine;
          (xAxis, yAxis) = bleToWifi_axes order data
      in SetSeriesOptions [WithAreaStyleOpts opacity_0_2, WithLineChartOpts True]
           (AddSeries ''BLE to Wifi'' yAxis (SetXAxis xAxis line)))"

text \<open>The same function in \<open>main.go\<close>: no tooltip and no legend option.\<close>

definition bleToWifi_main_go :: "string list \<Rightarrow> matrix \<Rightarrow> Line" where
  "bleToWifi_main_go order data =
     (let line = SetGlobalOptions
                   [WithTitleOpts ''Seconds from BLE discovery to Successful Wifi connection'',
                    WithXAxisOpts ''Count'',
                    WithYAxisOpts ''Seconds'']
                   NewLine;
          (xAxis, yAxis) = bleToWifi_axes order data
      in SetSeriesOptions [WithAreaStyleOpts opacity_0_2, WithLineChartOpts True]
           (AddSeries ''BLE to Wifi'' yAxis (SetXAxis xAxis line)))"

subsection \<open>bleToIpfs\<close>

fun bleToIpfs_delays ::
  "int64 list \<Rightarrow> nat list \<times> LineData list \<Rightarrow> nat list \<times> LineData list" where
  "bleToIpfs_delays [] (xAxis, yAxis) = (xAxis, yAxis)"
| "bleToIpfs_delays (k # rest) (xAxis, yAxis) =
     bleToIpfs_delays rest (xAxis @ [length xAxis], yAxis @ [LineData (VInt64 k)])"

fun bleToIpfs_nodes ::
  "DiscoveredNodeMatrix list \<Rightarrow> nat list \<times> LineData list \<Rightarrow> nat list \<times> LineData list" where
  "bleToIpfs_nodes [] axes = axes"
| "bleToIpfs_nodes (v # rest) axes =
     bleToIpfs_nodes rest (bleToIpfs_delays (DiscoveryDelays v) axes)"

definition bleToIpfs_axes :: "string list \<Rightarrow> matrix \<Rightarrow> nat list \<times> LineData list" where
  "bleToIpfs_axes order data =
     bleToIpfs_nodes (range_values (NodeMatrix data) order) ([], [])"

definition bleToIpfs :: "string list \<Rightarrow> matrix \<Rightarrow> Line" where
  "bleToIpfs order data =
     (let line = SetGlobalOptions
                   [WithTitleOpts ''Seconds from BLE discovery to Successful IPFS connection'',
                    WithXAxisOpts ''Count'',
                    WithYAxisOpts ''Seconds'',
                    WithTooltipOpts True,
                    WithLegendOpts True ''80%'']
                   NewLine;
          (xAxis, yAxis) = bleToIpfs_axes order data
      in SetSeriesOptions [WithAreaStyleOpts opacity_0_2, WithLineChartOpts True]
           (AddSeries ''BLE to IPFS'' yAxis (SetXAxis xAxis line)))"

definition bleToIpfs_main_go :: "string list \<Rightarrow> matrix \<Rightarrow> Line" where
  "bleToIpfs_main_go order data =
     (let line = SetGlobalOptions
                   [WithTitleOpts ''Seconds from BLE discovery to Successful IPFS connection'',
                    WithXAxisOpts ''Count'',
                    WithYAxisOpts ''Seconds'']
                   NewLine;
          (xAxis, yAxis) = bleToIpfs_axes order data
      in SetSeriesOptions [WithAreaStyleOpts opacity_0_2, WithLineChartOpts True]
           (AddSeries ''BLE to IPFS'' yAxis (SetXAxis xAxis line)))"

subsection \<open>rssiSpeed\<close>

definition parallelAxisList :: "(nat \<times> string) list" where
  "parallelAxisList = [(0, ''RSSI''), (1, ''Speed'')]"

fun rssiSpeed_history :: "ConnectionInfo list \<Rightarrow> ParallelData list \<Rightarrow> ParallelData list" where
  "rssiSpeed_history [] items = items"
| "rssiSpeed_history (k # rest) items =
     rssiSpeed_history rest
       (items @ [ParallelData (VList [VInt (ConnectionInfo.RSSI k),
                                      VInt (ConnectionInfo.Speed k)])])"

fun rssiSpeed_nodes ::
  "DiscoveredNodeMatrix list \<Rightarrow> ParallelData list \<Rightarrow> ParallelData list" where
  "rssiSpeed_nodes [] items = items"
| "rssiSpeed_nodes (v # rest) items =
     rssiSpeed_nodes rest (rssiSpeed_history (ConnectionHistory v) items)"

definition rssiSpeed_items :: "string list \<Rightarrow> matrix \<Rightarrow> ParallelData list" where
  "rssiSpeed_items order data =
     rssiSpeed_nodes (range_values (NodeMatrix data) order) []"

definition rssiSpeed :: "string list \<Rightarrow> matrix \<Rightarrow> Parallel" where
  "rssiSpeed order data =
     (let parallel = SetGlobalOptions
                       [WithTitleOpts ''RSSI Speed'',
                        WithParallelAxisList parallelAxisList,
                        WithTooltipOpts True,
                        WithLegendOpts True ''80%'']
                       NewParallel;
          items = rssiSpeed_items order data
      in AddSeries ''RSSI Speed'' items parallel)"

definition rssiSpeed_main_go :: "string list \<Rightarrow> matrix \<Rightarrow> Parallel" where
  "rssiSpeed_main_go order data =
     (let parallel = SetGlobalOptions
                       [WithTitleOpts ''RSSI Speed'',
                        WithParallelAxisList parallelAxisList]
                       NewParallel;
          items = rssiSpeed_items order data
      in AddSeries ''RSSI Speed'' items parallel)"

subsection \<open>downloadSpeed\<close>

text \<open>
  \<open>fmt.Sprintf("%.1f", _)\<close> and \<open>strconv.ParseFloat(_, 64)\<close> belong to Go's standard
  library, not to this program; they are the two parameters \<open>sprintf_1f\<close> and
  \<open>parseFloat\<close>. \<open>ParseFloat\<close> returns a value together with an error or \<open>nil\<close>; the
  program discards the error with \<open>f, _ :=\<close> and uses the value whatever the error was.
\<close>

datatype NumError = ErrSyntax | ErrRange

record stdlib =
  sprintf_1f :: "float32 \<Rightarrow> string"
  parseFloat :: "string \<Rightarrow> float64 \<times> NumError option"

fun downloadSpeed_contents ::
  "stdlib \<Rightarrow> ContentMatrix list \<Rightarrow> nat list \<times> LineData list \<Rightarrow> nat list \<times> LineData list" where
  "downloadSpeed_contents lib [] (xAxis, yAxis) = (xAxis, yAxis)"
| "downloadSpeed_contents lib (v # rest) (xAxis, yAxis) =
     (let xAxis' = xAxis @ [length xAxis];
          s = sprintf_1f lib (AvgSpeed v);
          (f, _) = parseFloat lib s
      in downloadSpeed_contents lib rest (xAxis', yAxis @ [LineData (VFloat64 f)]))"

definition downloadSpeed_axes ::
  "stdlib \<Rightarrow> string list \<Rightarrow> matrix \<Rightarrow> nat list \<times> LineData list" where
  "downloadSpeed_axes lib order data =
     downloadSpeed_contents lib (range_values (ContentMatrix data) order) ([], [])"

definition downloadSpeed :: "stdlib \<Rightarrow> string list \<Rightarrow> matrix \<Rightarrow> Line" where
  "downloadSpeed lib order data =
     (let line = SetGlobalOptions
                   [WithTitleOpts ''Download Speed'',
                    WithXAxisOpts ''Count'',
                    WithYAxisOpts ''MBps'',
                    WithTooltipOpts True,
                    WithLegendOpts True ''80%'']
                   NewLine;
          (xAxis, yAxis) = downloadSpeed_axes lib order data
      in SetSeriesOptions [WithAreaStyleOpts opacity_0_2]
           (AddSeries ''Download Speed'' yAxis (SetXAxis xAxis line)))"

definition downloadSpeed_main_go :: "stdlib \<Rightarrow> string list \<Rightarrow> matrix \<Rightarrow> Line" where
  "downloadSpeed_main_go lib order data =
     (let line = SetGlobalOptions
                   [WithTitleOpts ''Download Speed'',
                    WithXAxisOpts ''Count'',
                    WithYAxisOpts ''MBps'']
                   NewLine;
          (xAxis, yAxis) = downloadSpeed_axes lib order data
      in SetSeriesOptions [WithAreaStyleOpts opacity_0_2]
           (AddSeries ''Download Speed'' yAxis (SetXAxis xAxis line)))"

subsection \<open>transferIntervalToBatteryPercentage\<close>

text \<open>
  The loop variables are \<open>tenMbItems\<close> and \<open>hundredMbItems\<close>. The first test ends the
  iteration with \<open>continue\<close>, so the second test is only made when the first fails.
\<close>

fun battery_loop ::
  "Measurement list \<Rightarrow> BarData list \<times> BarData list \<Rightarrow> BarData list \<times> BarData list" where
  "battery_loop [] (tenMbItems, hundredMbItems) = (tenMbItems, hundredMbItems)"
| "battery_loop (v # rest) (tenMbItems, hundredMbItems) =
     (if DataTransfer v = ''10''
      then battery_loop rest
             (tenMbItems @ [BarData (VString (BatteryConsumption v))], hundredMbItems)
      else if DataTransfer v = ''100''
      then battery_loop rest
             (tenMbItems, hundredMbItems @ [BarData (VString (BatteryConsumption v))])
      else battery_loop rest (tenMbItems, hundredMbItems))"

definition transferIntervalToBatteryPercentage :: "BatteryMeasurements \<Rightarrow> Bar" where
  "transferIntervalToBatteryPercentage data =
     (let bar = SetGlobalOptions
                  [WithTitleOpts ''Battery Consumption after 3 hours of transfer'',
                   WithTooltipOpts True,
                   WithLegendOpts True ''80%'']
                  NewBar;
          (tenMbItems, hundredMbItems) = battery_loop (BatteryMeasurement data) ([], [])
      in SetSeriesOptions [WithLabelOpts True ''insideTop'']
           (AddSeries ''100Mb'' hundredMbItems
             (AddSeries ''10Mb'' tenMbItems
               (SetXAxis [''40s'', ''120s''] bar))))"

subsection \<open>What the loops range over\<close>

text \<open>
  The connection-history entries and the discovery delays of all nodes, in the order the
  nested loops meet them; the test and the value of the \<open>bleToWifi\<close> loop body.
\<close>

definition history_entries :: "string list \<Rightarrow> matrix \<Rightarrow> ConnectionInfo list" where
  "history_entries order data =
     concat (map ConnectionHistory (range_values (NodeMatrix data) order))"

definition delay_entries :: "string list \<Rightarrow> matrix \<Rightarrow> int64 list" where
  "delay_entries order data =
     concat (map DiscoveryDelays (range_values (NodeMatrix data) order))"

definition wifi_connected :: "ConnectionInfo \<Rightarrow> bool" where
  "wifi_connected k = (ConnectionInfo.WifiConnectedAt k \<noteq> 0)"

definition wifi_point :: "ConnectionInfo \<Rightarrow> LineData" where
  "wifi_point k =
     LineData (VInt64 (ConnectionInfo.WifiConnectedAt k - ConnectionInfo.BLEDiscoveredAt k))"

definition rssi_point :: "ConnectionInfo \<Rightarrow> ParallelData" where
  "rssi_point k =
     ParallelData (VList [VInt (ConnectionInfo.RSSI k), VInt (ConnectionInfo.Speed k)])"

definition speed_point :: "stdlib \<Rightarrow> ContentMatrix \<Rightarrow> LineData" where
  "speed_point lib v = LineData (VFloat64 (fst (parseFloat lib (sprintf_1f lib (AvgSpeed v)))))"

definition is_10 :: "Measurement \<Rightarrow> bool" where
  "is_10 v = (DataTransfer v = ''10'')"

definition is_100 :: "Measurement \<Rightarrow> bool" where
  "is_100 v = (DataTransfer v = ''100'')"

definition bar_point :: "Measurement \<Rightarrow> BarData" where
  "bar_point v = BarData (VString (BatteryConsumption v))"

text \<open>All points of a chart, series after series.\<close>

definition points_of :: "('d, 'z) BaseChart_scheme \<Rightarrow> 'd list" where
  "points_of c = concat (map Data (MultiSeries c))"

section \<open>Pages, files and the driver\<close>

text \<open>
  A page collects charts of the three kinds. The world is the file system (a path has
  readable contents or none) and the trace of what the process did so far. The JSON
  decoder, the HTML renderer and the outcome of \<open>os.Create\<close> are not code of this
  program: they are fields of the environment, as is the order each \<open>range\<close> over a
  map takes.
\<close>

datatype chart = LineChart Line | ParallelChart Parallel | BarChart Bar

record Page =
  PageTitle :: string
  Charts :: "chart list"

definition NewPage :: Page where
  "NewPage = \<lparr>PageTitle = [], Charts = []\<rparr>"

definition AddCharts :: "chart list \<Rightarrow> Page \<Rightarrow> Page" where
  "AddCharts cs page = page\<lparr>Charts := Charts page @ cs\<rparr>"

datatype error = IOError | ParseError | RenderError

datatype event =
    EvReadFile string
  | EvUnmarshal
  | EvAggregate string
  | EvCreate string
  | EvRender
  | EvLogFatal string error
  | EvListenAndServe

record world =
  fs :: "string \<rightharpoonup> string"
  trace :: "event list"

record range_choice =
  wifi_order :: "string list"
  ipfs_order :: "string list"
  rssi_order :: "string list"
  speed_order :: "string list"

record env =
  golib :: stdlib
  unmarshal_matrix :: "string \<Rightarrow> matrix option"
  unmarshal_battery :: "string \<Rightarrow> BatteryMeasurements option"
  can_create :: "string \<Rightarrow> bool"
  render :: "Page \<Rightarrow> string \<times> error option"
  range_orders :: "matrix \<Rightarrow> range_choice"

text \<open>
  \<open>log.Fatal\<close> writes the message and ends the process with status 1: nothing after
  it runs, in the function that calls it or in its callers.
\<close>

datatype status = Exited nat | Returned "error option" | Serving

definition did :: "event list \<Rightarrow> world \<Rightarrow> world" where
  "did evs w = w\<lparr>trace := trace w @ evs\<rparr>"

definition log_Fatal :: "string \<Rightarrow> error \<Rightarrow> world \<Rightarrow> status \<times> world" where
  "log_Fatal msg err w = (Exited 1, did [EvLogFatal msg err] w)"

definition log_path :: "string \<Rightarrow> string" where
  "log_path pageName = ''logs/'' @ pageName @ ''.log''"

definition html_path :: "string \<Rightarrow> string" where
  "html_path pageName = ''html/'' @ pageName @ ''.html''"

text \<open>
  \<open>os.Create\<close> makes the file or truncates it; \<open>page.Render\<close> then writes what the
  renderer produces, and its error is the function's result.
\<close>

definition write_page :: "env \<Rightarrow> string \<Rightarrow> Page \<Rightarrow> world \<Rightarrow> status \<times> world" where
  "write_page e pageName page w =
     (let w1 = did [EvCreate (html_path pageName)] w
      in if \<not> can_create e (html_path pageName)
         then log_Fatal ''unable to create file '' IOError w1
         else (let w2 = w1\<lparr>fs := (fs w1)(html_path pageName \<mapsto> [])\<rparr>;
                   (out, err) = render e page
               in (Returned err,
                   did [EvRender] (w2\<lparr>fs := (fs w2)(html_path pageName \<mapsto> out)\<rparr>))))"

definition renderMatrixPage :: "env \<Rightarrow> string \<Rightarrow> world \<Rightarrow> status \<times> world" where
  "renderMatrixPage e pageName w =
     (let w1 = did [EvReadFile (log_path pageName)] w
      in case fs w (log_path pageName) of
           None \<Rightarrow> log_Fatal ''matrix file missing '' IOError w1
         | Some file \<Rightarrow>
             (let w2 = did [EvUnmarshal] w1
              in case unmarshal_matrix e file of
                   None \<Rightarrow> log_Fatal ''matrix file missing '' ParseError w2
                 | Some data \<Rightarrow>
                     (let c = range_orders e data;
                          page = AddCharts
                                   [LineChart (bleToWifi (wifi_order c) data),
                                    LineChart (bleToIpfs (ipfs_order c) data),
                                    ParallelChart (rssiSpeed (rssi_order c) data),
                                    LineChart (downloadSpeed (golib e) (speed_order c) data)]
                                   NewPage;
                          w3 = did [EvAggregate ''bleToWifi'', EvAggregate ''bleToIpfs'',
                                    EvAggregate ''rssiSpeed'', EvAggregate ''downloadSpeed''] w2;
                          page' = page\<lparr>PageTitle := ''Datahop Matrix Charts''\<rparr>
                      in write_page e pageName page' w3)))"

text \<open>\<open>renderPage\<close> of \<open>main.go\<close>: the same steps with that file's aggregators.\<close>

definition renderPage :: "env \<Rightarrow> string \<Rightarrow> world \<Rightarrow> status \<times> world" where
  "renderPage e pageName w =
     (let w1 = did [EvReadFile (log_path pageName)] w
      in case fs w (log_path pageName) of
           None \<Rightarrow> log_Fatal ''matrix file missing '' IOError w1
         | Some file \<Rightarrow>
             (let w2 = did [EvUnmarshal] w1
              in case unmarshal_matrix e file of
                   None \<Rightarrow> log_Fatal ''matrix file missing '' ParseError w2
                 | Some data \<Rightarrow>
                     (let c = range_orders e data;
                          page = AddCharts
                                   [LineChart (bleToWifi_main_go (wifi_order c) data),
                                    LineChart (bleToIpfs_main_go (ipfs_order c) data),
                                    ParallelChart (rssiSpeed_main_go (rssi_order c) data),
                                    LineChart (downloadSpeed_main_go (golib e) (speed_order c) data)]
                                   NewPage;
                          w3 = did [EvAggregate ''bleToWifi'', EvAggregate ''bleToIpfs'',
                                    EvAggregate ''rssiSpeed'', EvAggregate ''downloadSpeed''] w2;
                          page' = page\<lparr>PageTitle := ''Datahop Matrix Charts''\<rparr>
                      in write_page e pageName page' w3)))"

definition renderBatteryMeasurementPage :: "env \<Rightarrow> string \<Rightarrow> world \<Rightarrow> status \<times> world" where
  "renderBatteryMeasurementPage e pageName w =
     (let w1 = did [EvReadFile (log_path pageName)] w
      in case fs w (log_path pageName) of
           None \<Rightarrow> log_Fatal ''matrix file missing '' IOError w1
         | Some file \<Rightarrow>
             (let w2 = did [EvUnmarshal] w1
              in case unmarshal_battery e file of
                   None \<Rightarrow> log_Fatal ''matrix file missing '' ParseError w2
                 | Some data \<Rightarrow>
                     (let page = AddCharts
                                   [BarChart (transferIntervalToBatteryPercentage data)]
                                   NewPage;
                          w3 = did [EvAggregate ''transferIntervalToBatteryPercentage''] w2;
                          page' = page\<lparr>PageTitle := ''Datahop Battery Measurement Charts''\<rparr>
                      in write_page e pageName page' w3)))"

definition matrixFiles :: "string list" where
  "matrixFiles = [''zero_host_downloader'', ''zero_client_uploader'',
                  ''five_host_downloader'', ''five_client_uploader'']"

definition batteryMeasurementFiles :: "string list" where
  "batteryMeasurementFiles = [''battery_measurements'']"

definition files_main_go :: "string list" where
  "files_main_go = [''zero_host_downloader'', ''zero_client_uploader'',
                    ''five_host_downloader'', ''five_client_uploader'']"

text \<open>
  The loops of \<open>main\<close>: render the pages in turn; a page function that ends the process
  ends the loop, and one that returns an error makes \<open>main\<close> end the process.
  \<open>Returned None\<close> from the loop means that every page was rendered.
\<close>

fun render_pages ::
  "(string \<Rightarrow> world \<Rightarrow> status \<times> world) \<Rightarrow> string list \<Rightarrow> world \<Rightarrow> status \<times> world" where
  "render_pages f [] w = (Returned None, w)"
| "render_pages f (v # rest) w =
     (case f v w of
        (Returned None, w') \<Rightarrow> render_pages f rest w'
      | (Returned (Some err), w') \<Rightarrow> log_Fatal ''Page render failed '' err w'
      | (st, w') \<Rightarrow> (st, w'))"

definition serve :: "world \<Rightarrow> status \<times> world" where
  "serve w = (Serving, did [EvListenAndServe] w)"

definition main :: "env \<Rightarrow> world \<Rightarrow> status \<times> world" where
  "main e w =
     (case render_pages (renderMatrixPage e) matrixFiles w of
        (Returned None, w1) \<Rightarrow>
          (case render_pages (renderBatteryMeasurementPage e) batteryMeasurementFiles w1 of
             (Returned None, w2) \<Rightarrow> serve w2
           | (st, w2) \<Rightarrow> (st, w2))
      | (st, w1) \<Rightarrow> (st, w1))"

definition main_main_go :: "env \<Rightarrow> world \<Rightarrow> status \<times> world" where
  "main_main_go e w =
     (case render_pages (renderPage e) files_main_go w of
        (Returned None, w1) \<Rightarrow> serve w1
      | (st, w1) \<Rightarrow> (st, w1))"

section \<open>Sample records\<close>

text \<open>
  Go composite literals leave the fields they do not name at zero:
  \<open>ConnectionInfo{BLEDiscoveredAt: b, WifiConnectedAt: w, RSSI: r, Speed: s}\<close> and
  \<open>DiscoveredNodeMatrix{DiscoveryDelays: ds, ConnectionHistory: hs}\<close>.
\<close>

definition connection :: "int64 \<Rightarrow> int64 \<Rightarrow> goint \<Rightarrow> goint \<Rightarrow> ConnectionInfo" where
  "connection b w r s =
     \<lparr>ConnectionInfo.BLEDiscoveredAt = b, ConnectionInfo.WifiConnectedAt = w,
      ConnectionInfo.RSSI = r, ConnectionInfo.Speed = s, ConnectionInfo.Frequency = 0,
      ConnectionInfo.IPFSConnectedAt = 0, DisconnectedAt = 0\<rparr>"

definition node :: "int64 list \<Rightarrow> ConnectionInfo list \<Rightarrow> DiscoveredNodeMatrix" where
  "node ds hs =
     \<lparr>ConnectionAlive = False, ConnectionSuccessCount = 0, ConnectionFailureCount = 0,
      LastSuccessfulConnectionDuration = 0, BLEDiscoveredAt = 0, WifiConnectedAt = 0,
      RSSI = 0, Speed = 0, Frequency = 0, IPFSConnectedAt = 0,
      DiscoveryDelays = ds, ConnectionHistory = hs\<rparr>"

definition content :: "float32 \<Rightarrow> ContentMatrix" where
  "content a =
     \<lparr>Tag = [], Size = 0, AvgSpeed = a, DownloadStartedAt = 0, DownloadFinishedAt = 0,
      ProvidedBy = []\<rparr>"

text \<open>
  The matrix of the round-trip scenario, with one content record whose \<open>AvgSpeed\<close>
  is the float32 nearest to 3.14, and a matrix of two nodes.
\<close>

definition scenario :: matrix where
  "scenario =
     \<lparr>ContentMatrix = [''tag'' \<mapsto> content 0x4048F5C3],
      NodeMatrix = [''n1'' \<mapsto> node [7, 9] [connection 100 105 (- 60) 54, connection 200 0 (- 71) 0]],
      TotalUptime = 0\<rparr>"

definition two_nodes :: matrix where
  "two_nodes =
     \<lparr>ContentMatrix = Map.empty,
      NodeMatrix = [''a'' \<mapsto> node [1, 2] [connection 10 13 0 0],
                    ''b'' \<mapsto> node [3] [connection 20 0 0 0, connection 30 25 0 0]],
      TotalUptime = 0\<rparr>"

text \<open>
  A stand-in for the two library functions, right at the values the samples use:
  3.14 prints as \<open>3.1\<close>, which parses to the float64 nearest to 3.1; everything else
  prints as \<open>0.0\<close>; any other string is a syntax error, with value zero.
\<close>

definition sample_lib :: stdlib where
  "sample_lib =
     \<lparr>sprintf_1f = (\<lambda>x. if x = 0x4048F5C3 then ''3.1'' else ''0.0''),
      parseFloat = (\<lambda>s. if s = ''3.1'' then (0x4008CCCCCCCCCCCD, None)
                         else if s = ''0.0'' then (0, None)
                         else (0, Some ErrSyntax))\<rparr>"



definition measurement :: "string \<Rightarrow> string \<Rightarrow> string \<Rightarrow> Measurement" where
  "measurement d t c = \<lparr>DataTransfer = d, TransferInterval = t, BatteryConsumption = c\<rparr>"

definition sample_battery :: BatteryMeasurements where
  "sample_battery =
     \<lparr>BatteryMeasurement =
        [measurement ''10'' ''40'' ''5'', measurement ''50'' ''40'' ''9'',
         measurement ''100'' ''120'' ''12'', measurement ''10'' ''120'' ''7'']\<rparr>"

definition sample_battery' :: BatteryMeasurements where
  "sample_battery' =
     \<lparr>BatteryMeasurement =
        [measurement ''10'' ''120'' ''5'', measurement ''50'' ''1'' ''9'',
         measurement ''100'' [] ''12'', measurement ''10'' ''40'' ''7'']\<rparr>"

text \<open>
  What the three page functions have in common: they end the process with status 1 or
  return, and the only file they may change is the page's own output file.
\<close>

definition page_status :: "status \<Rightarrow> bool" where
  "page_status st = (case st of Exited n \<Rightarrow> n = 1 | Returned r \<Rightarrow> True | Serving \<Rightarrow> False)"

definition page_function :: "(string \<Rightarrow> world \<Rightarrow> status \<times> world) \<Rightarrow> bool" where
  "page_function f =
     (\<forall>p w. page_status (fst (f p w))
            \<and> (\<forall>q. q \<noteq> html_path p \<longrightarrow> fs (snd (f p w)) q = fs w q))"

text \<open>
  A stand-in environment: the decoders accept only the empty JSON object, which decodes
  to the zero value of the record; every file can be created; the renderer writes a
  fixed document. The maps of the zero matrix are empty, so every range order is empty.
\<close>

definition zero_matrix :: matrix where
  "zero_matrix = \<lparr>ContentMatrix = Map.empty, NodeMatrix = Map.empty, TotalUptime = 0\<rparr>"

definition sample_env :: env where
  "sample_env =
     \<lparr>golib = sample_lib,
      unmarshal_matrix = (\<lambda>s. if s = ''{}'' then Some zero_matrix else None),
      unmarshal_battery = (\<lambda>s. if s = ''{}'' then Some \<lparr>BatteryMeasurement = []\<rparr> else None),
      can_create = (\<lambda>p. True),
      render = (\<lambda>page. (''<html></html>'', None)),
      range_orders = (\<lambda>m. \<lparr>wifi_order = [], ipfs_order = [], rssi_order = [],
                              speed_order = []\<rparr>)\<rparr>"

text \<open>A world with no log file at all, and one whose second log is not JSON.\<close>

definition no_logs :: world where
  "no_logs = \<lparr>fs = Map.empty, trace = []\<rparr>"

definition second_log_malformed :: world where
  "second_log_malformed =
     \<lparr>fs = [''logs/zero_host_downloader.log'' \<mapsto> ''{}'',
            ''logs/zero_client_uploader.log'' \<mapsto> ''not json''],
      trace = []\<rparr>"

text \<open>The second world after the first page has been rendered in \<open>sample_env\<close>.\<close>

definition first_page_rendered :: world where
  "first_page_rendered =
     \<lparr>fs = [''logs/zero_host_downloader.log'' \<mapsto> ''{}'',
            ''logs/zero_client_uploader.log'' \<mapsto> ''not json'',
            ''html/zero_host_downloader.html'' \<mapsto> ''<html></html>''],
      trace = [EvReadFile ''logs/zero_host_downloader.log'', EvUnmarshal,
               EvAggregate ''bleToWifi'', EvAggregate ''bleToIpfs'',
               EvAggregate ''rssiSpeed'', EvAggregate ''downloadSpeed'',
               EvCreate ''html/zero_host_downloader.html'', EvRender]\<rparr>"

text \<open>A world whose matrix logs all decode and whose battery log is not JSON.\<close>

definition battery_log_malformed :: world where
  "battery_log_malformed =
     \<lparr>fs = [''logs/zero_host_downloader.log'' \<mapsto> ''{}'',
            ''logs/zero_client_uploader.log'' \<mapsto> ''{}'',
            ''logs/five_host_downloader.log'' \<mapsto> ''{}'',
            ''logs/five_client_uploader.log'' \<mapsto> ''{}'',
            ''logs/battery_measurements.log'' \<mapsto> ''not json''],
      trace = []\<rparr>"

section \<open>Facts about ranging over a map\<close>

lemma map_filter_dom:
  "set ks \<subseteq> dom m \<Longrightarrow> List.map_filter m ks = map (\<lambda>k. the (m k)) ks"
  by (induction ks) (auto simp: List.map_filter_simps)

lemma range_values_the:
  "range_order m ks \<Longrightarrow> range_values m ks = map (\<lambda>k. the (m k)) ks"
  by (simp add: range_order_def range_values_def map_filter_dom)


lemma mset_range_values:
  assumes "range_order m ks" and "range_order m ks'"
  shows "mset (range_values m ks) = mset (range_values m ks')"
proof -
  from assms have "mset ks = mset ks'"
    by (metis range_order_def set_eq_iff_mset_eq_distinct)
  then have "mset (map (\<lambda>k. the (m k)) ks) = mset (map (\<lambda>k. the (m k)) ks')"
    by simp
  with assms show ?thesis
    by (simp add: range_values_the)
qed

lemma mset_concat_range:
  assumes "range_order m ks"
  shows "mset (concat (map f (range_values m ks))) = (\<Sum>k\<in>dom m. mset (f (the (m k))))"
proof -
  have "mset (concat (map f (range_values m ks))) = sum_list (map (\<lambda>k. mset (f (the (m k)))) ks)"
    using assms by (simp add: mset_concat range_values_the comp_def)
  also have "\<dots> = (\<Sum>k\<in>set ks. mset (f (the (m k))))"
    using assms by (simp add: sum_list_distinct_conv_sum_set range_order_def)
  finally show ?thesis
    using assms by (simp add: range_order_def)
qed

lemma length_concat_range:
  assumes "range_order m ks"
  shows "length (concat (map f (range_values m ks))) = (\<Sum>k\<in>dom m. length (f (the (m k))))"
proof -
  have "length (concat (map f (range_values m ks))) = sum_list (map (\<lambda>k. length (f (the (m k)))) ks)"
    using assms by (simp add: length_concat range_values_the comp_def)
  also have "\<dots> = (\<Sum>k\<in>set ks. length (f (the (m k))))"
    using assms by (simp add: sum_list_distinct_conv_sum_set range_order_def)
  finally show ?thesis
    using assms by (simp add: range_order_def)
qed

lemma mset_concat_range_perm:
  assumes "range_order m ks" and "range_order m ks'"
  shows "mset (concat (map f (range_values m ks))) = mset (concat (map f (range_values m ks')))"
  by (simp add: mset_concat_range [OF assms(1)] mset_concat_range [OF assms(2)])

section \<open>The running index\<close>

lemma upt_split: "[a ..< a + (m + n)] = [a ..< a + m] @ [a + m ..< a + m + n]" for a m n :: nat
  by (metis le_add1 upt_add_eq_append add.assoc)

lemma upt_first: "a # [Suc a ..< Suc (a + n)] = [a ..< Suc (a + n)]" for a n :: nat
  by (simp add: upt_conv_Cons del: upt_Suc)

section \<open>The loops in closed form\<close>

lemma bleToWifi_history_eq:
  "bleToWifi_history ks (xAxis, yAxis) =
     (xAxis @ [length xAxis ..< length xAxis + length (filter wifi_connected ks)],
      yAxis @ map wifi_point (filter wifi_connected ks))"
proof (induction ks arbitrary: xAxis yAxis)
  case Nil
  show ?case by simp
next
  case (Cons k ks)
  show ?case
  proof (cases "wifi_connected k")
    case True
    then show ?thesis
      by (simp add: Cons.IH wifi_connected_def wifi_point_def upt_first del: upt_Suc)
  next
    case False
    then show ?thesis
      by (simp add: Cons.IH wifi_connected_def)
  qed
qed

lemma bleToWifi_nodes_eq:
  "bleToWifi_nodes vs (xAxis, yAxis) =
     (xAxis @ [length xAxis ..< length xAxis
                 + length (filter wifi_connected (concat (map ConnectionHistory vs)))],
      yAxis @ map wifi_point (filter wifi_connected (concat (map ConnectionHistory vs))))"
  by (induction vs arbitrary: xAxis yAxis) (simp_all add: bleToWifi_history_eq upt_split)

lemma bleToWifi_axes_eq:
  "bleToWifi_axes order data =
     ([0 ..< length (filter wifi_connected (history_entries order data))],
      map wifi_point (filter wifi_connected (history_entries order data)))"
  by (simp add: bleToWifi_axes_def bleToWifi_nodes_eq history_entries_def)

lemma bleToIpfs_delays_eq:
  "bleToIpfs_delays ks (xAxis, yAxis) =
     (xAxis @ [length xAxis ..< length xAxis + length ks],
      yAxis @ map (\<lambda>k. LineData (VInt64 k)) ks)"
  by (induction ks arbitrary: xAxis yAxis) (simp_all add: upt_first del: upt_Suc)

lemma bleToIpfs_nodes_eq:
  "bleToIpfs_nodes vs (xAxis, yAxis) =
     (xAxis @ [length xAxis ..< length xAxis + length (concat (map DiscoveryDelays vs))],
      yAxis @ map (\<lambda>k. LineData (VInt64 k)) (concat (map DiscoveryDelays vs)))"
  by (induction vs arbitrary: xAxis yAxis) (simp_all add: bleToIpfs_delays_eq upt_split)

lemma bleToIpfs_axes_eq:
  "bleToIpfs_axes order data =
     ([0 ..< length (delay_entries order data)],
      map (\<lambda>k. LineData (VInt64 k)) (delay_entries order data))"
  by (simp add: bleToIpfs_axes_def bleToIpfs_nodes_eq delay_entries_def)

lemma rssiSpeed_history_eq: "rssiSpeed_history ks items = items @ map rssi_point ks"
  by (induction ks arbitrary: items) (simp_all add: rssi_point_def)

lemma rssiSpeed_nodes_eq:
  "rssiSpeed_nodes vs items = items @ map rssi_point (concat (map ConnectionHistory vs))"
  by (induction vs arbitrary: items) (simp_all add: rssiSpeed_history_eq)

lemma rssiSpeed_items_eq: "rssiSpeed_items order data = map rssi_point (history_entries order data)"
  by (simp add: rssiSpeed_items_def rssiSpeed_nodes_eq history_entries_def)

lemma downloadSpeed_contents_eq:
  "downloadSpeed_contents lib vs (xAxis, yAxis) =
     (xAxis @ [length xAxis ..< length xAxis + length vs],
      yAxis @ map (speed_point lib) vs)"
  by (induction vs arbitrary: xAxis yAxis)
     (simp_all add: speed_point_def Let_def split_beta upt_first del: upt_Suc)

lemma downloadSpeed_axes_eq:
  "downloadSpeed_axes lib order data =
     ([0 ..< length (range_values (ContentMatrix data) order)],
      map (speed_point lib) (range_values (ContentMatrix data) order))"
  by (simp add: downloadSpeed_axes_def downloadSpeed_contents_eq)

lemma battery_loop_eq:
  "battery_loop ms (tenMbItems, hundredMbItems) =
     (tenMbItems @ map bar_point (filter is_10 ms),
      hundredMbItems @ map bar_point (filter is_100 ms))"
  by (induction ms arbitrary: tenMbItems hundredMbItems)
     (simp_all add: is_10_def is_100_def bar_point_def)

section \<open>The charts\<close>

lemmas builder_defs =
  NewLine_def NewBar_def NewParallel_def SetGlobalOptions_def SetXAxis_def AddSeries_def
  SetSeriesOptions_def series_of_def Let_def

lemma series_bleToWifi:
  "series_of (bleToWifi order data) = [(''BLE to Wifi'', snd (bleToWifi_axes order data))]"
  "series_of (bleToWifi_main_go order data) = [(''BLE to Wifi'', snd (bleToWifi_axes order data))]"
  by (simp_all add: bleToWifi_def bleToWifi_main_go_def builder_defs split_beta)

lemma XAxis_bleToWifi:
  "XAxis (bleToWifi order data) = fst (bleToWifi_axes order data)"
  "XAxis (bleToWifi_main_go order data) = fst (bleToWifi_axes order data)"
  by (simp_all add: bleToWifi_def bleToWifi_main_go_def builder_defs split_beta)

lemma series_bleToIpfs:
  "series_of (bleToIpfs order data) = [(''BLE to IPFS'', snd (bleToIpfs_axes order data))]"
  "series_of (bleToIpfs_main_go order data) = [(''BLE to IPFS'', snd (bleToIpfs_axes order data))]"
  by (simp_all add: bleToIpfs_def bleToIpfs_main_go_def builder_defs split_beta)

lemma XAxis_bleToIpfs:
  "XAxis (bleToIpfs order data) = fst (bleToIpfs_axes order data)"
  "XAxis (bleToIpfs_main_go order data) = fst (bleToIpfs_axes order data)"
  by (simp_all add: bleToIpfs_def bleToIpfs_main_go_def builder_defs split_beta)

lemma series_rssiSpeed:
  "series_of (rssiSpeed order data) = [(''RSSI Speed'', rssiSpeed_items order data)]"
  "series_of (rssiSpeed_main_go order data) = [(''RSSI Speed'', rssiSpeed_items order data)]"
  by (simp_all add: rssiSpeed_def rssiSpeed_main_go_def builder_defs)


lemma XAxis_downloadSpeed:
  "XAxis (downloadSpeed lib order data) = fst (downloadSpeed_axes lib order data)"
  "XAxis (downloadSpeed_main_go lib order data) = fst (downloadSpeed_axes lib order data)"
  by (simp_all add: downloadSpeed_def downloadSpeed_main_go_def builder_defs split_beta)

lemma series_battery:
  "series_of (transferIntervalToBatteryPercentage data) =
     [(''10Mb'', map bar_point (filter is_10 (BatteryMeasurement data))),
      (''100Mb'', map bar_point (filter is_100 (BatteryMeasurement data)))]"
  by (simp add: transferIntervalToBatteryPercentage_def battery_loop_eq builder_defs)

lemma XAxis_battery: "XAxis (transferIntervalToBatteryPercentage data) = [''40s'', ''120s'']"
  by (simp add: transferIntervalToBatteryPercentage_def battery_loop_eq builder_defs)

lemma points_bleToWifi:
  "points_of (bleToWifi order data) = snd (bleToWifi_axes order data)"
  "points_of (bleToWifi_main_go order data) = snd (bleToWifi_axes order data)"
  by (simp_all add: bleToWifi_def bleToWifi_main_go_def builder_defs points_of_def split_beta)

lemma points_bleToIpfs:
  "points_of (bleToIpfs order data) = snd (bleToIpfs_axes order data)"
  "points_of (bleToIpfs_main_go order data) = snd (bleToIpfs_axes order data)"
  by (simp_all add: bleToIpfs_def bleToIpfs_main_go_def builder_defs points_of_def split_beta)

lemma points_rssiSpeed:
  "points_of (rssiSpeed order data) = rssiSpeed_items order data"
  "points_of (rssiSpeed_main_go order data) = rssiSpeed_items order data"
  by (simp_all add: rssiSpeed_def rssiSpeed_main_go_def builder_defs points_of_def)

lemma points_downloadSpeed:
  "points_of (downloadSpeed lib order data) = snd (downloadSpeed_axes lib order data)"
  "points_of (downloadSpeed_main_go lib order data) = snd (downloadSpeed_axes lib order data)"
  by (simp_all add: downloadSpeed_def downloadSpeed_main_go_def builder_defs points_of_def
                    split_beta)

lemma distinct_singleton: "distinct xs \<Longrightarrow> set xs = {k} \<Longrightarrow> xs = [k]"
proof (cases xs)
  case Nil
  assume "set xs = {k}"
  with Nil show ?thesis by simp
next
  case (Cons x rest)
  assume d: "distinct xs" and s: "set xs = {k}"
  from s Cons have x: "x = k" by auto
  have "rest = []"
  proof (cases rest)
    case Nil
    then show ?thesis .
  next
    case (Cons y more)
    with s \<open>xs = x # rest\<close> have "y = k" by auto
    with d x Cons \<open>xs = x # rest\<close> show ?thesis by simp
  qed
  with x Cons show ?thesis by simp
qed

lemma range_order_single: "range_order [k \<mapsto> v] order \<Longrightarrow> order = [k]"
  by (simp add: range_order_def distinct_singleton)

lemma points_battery:
  "points_of (transferIntervalToBatteryPercentage data) =
     map bar_point (filter is_10 (BatteryMeasurement data))
     @ map bar_point (filter is_100 (BatteryMeasurement data))"
  by (simp add: transferIntervalToBatteryPercentage_def battery_loop_eq builder_defs points_of_def)


section \<open>Paths\<close>

lemma html_path_inj: "html_path p = html_path q \<longleftrightarrow> p = q"
  by (simp add: html_path_def)

lemma log_path_not_html: "log_path p \<noteq> html_path q"
  by (simp add: log_path_def html_path_def)

section \<open>What a page function may change\<close>

lemma fs_did [simp]: "fs (did evs w) = fs w"
  by (simp add: did_def)

lemma trace_did [simp]: "trace (did evs w) = trace w @ evs"
  by (simp add: did_def)

lemma did_did: "did evs' (did evs w) = did (evs @ evs') w"
  by (simp add: did_def)

lemma log_Fatal_simps [simp]:
  "fst (log_Fatal msg err w) = Exited 1"
  "fs (snd (log_Fatal msg err w)) = fs w"
  by (simp_all add: log_Fatal_def)

lemma write_page_frame:
  "q \<noteq> html_path p \<Longrightarrow> fs (snd (write_page e p page w)) q = fs w q"
  by (simp add: write_page_def Let_def split_beta)

lemma write_page_status: "page_status (fst (write_page e p page w))"
  by (simp add: write_page_def Let_def split_beta page_status_def)

lemma renderMatrixPage_frame:
  "q \<noteq> html_path p \<Longrightarrow> fs (snd (renderMatrixPage e p w)) q = fs w q"
  by (simp add: renderMatrixPage_def Let_def write_page_frame split: option.split)

lemma renderPage_frame:
  "q \<noteq> html_path p \<Longrightarrow> fs (snd (renderPage e p w)) q = fs w q"
  by (simp add: renderPage_def Let_def write_page_frame split: option.split)

lemma renderBatteryMeasurementPage_frame:
  "q \<noteq> html_path p \<Longrightarrow> fs (snd (renderBatteryMeasurementPage e p w)) q = fs w q"
  by (simp add: renderBatteryMeasurementPage_def Let_def write_page_frame split: option.split)

lemma page_status_simps [simp]:
  "page_status (Exited n) \<longleftrightarrow> n = 1"
  "page_status (Returned r)"
  "\<not> page_status Serving"
  by (simp_all add: page_status_def)

lemma log_Fatal_status: "page_status (fst (log_Fatal msg err w))"
  by simp

lemma renderMatrixPage_status: "page_status (fst (renderMatrixPage e p w))"
  by (simp add: renderMatrixPage_def Let_def write_page_status log_Fatal_status
           split: option.split)

lemma renderPage_status: "page_status (fst (renderPage e p w))"
  by (simp add: renderPage_def Let_def write_page_status log_Fatal_status
           split: option.split)

lemma renderBatteryMeasurementPage_status:
  "page_status (fst (renderBatteryMeasurementPage e p w))"
  by (simp add: renderBatteryMeasurementPage_def Let_def write_page_status log_Fatal_status
           split: option.split)

section \<open>The loop of main\<close>

lemma page_functions:
  "page_function (renderMatrixPage e)"
  "page_function (renderPage e)"
  "page_function (renderBatteryMeasurementPage e)"
  by (simp_all add: page_function_def renderMatrixPage_frame renderMatrixPage_status
                    renderPage_frame renderPage_status
                    renderBatteryMeasurementPage_frame renderBatteryMeasurementPage_status)

lemma render_pages_ok:
  "fst (f v w) = Returned None \<Longrightarrow> render_pages f (v # rest) w = render_pages f rest (snd (f v w))"
  by (cases "f v w") simp

lemma render_pages_err:
  "fst (f v w) = Returned (Some err) \<Longrightarrow>
   render_pages f (v # rest) w = log_Fatal ''Page render failed '' err (snd (f v w))"
  by (cases "f v w") simp

lemma render_pages_exit:
  "fst (f v w) = Exited n \<Longrightarrow> render_pages f (v # rest) w = f v w"
  by (cases "f v w") simp

lemma page_status_cases:
  assumes "page_status st"
  obtains "st = Exited 1" | "st = Returned None" | err where "st = Returned (Some err)"
  using assms by (cases st) (auto simp: page_status_def)

lemma render_pages_append:
  assumes "page_function f"
  shows "render_pages f (xs @ ys) w =
     (if fst (render_pages f xs w) = Returned None
      then render_pages f ys (snd (render_pages f xs w))
      else render_pages f xs w)"
proof (induction xs arbitrary: w)
  case Nil
  show ?case by simp
next
  case (Cons x xs)
  from assms have "page_status (fst (f x w))"
    by (simp add: page_function_def)
  then show ?case
  proof (cases rule: page_status_cases)
    case 1
    then show ?thesis
      by (simp only: append_Cons render_pages_exit) simp
  next
    case 2
    then show ?thesis
      by (simp only: append_Cons render_pages_ok Cons.IH)
  next
    case (3 err)
    then show ?thesis
      by (simp only: append_Cons render_pages_err) (simp add: log_Fatal_def)
  qed
qed

lemma render_pages_status:
  assumes "page_function f"
  shows "fst (render_pages f ps w) = Exited 1 \<or> fst (render_pages f ps w) = Returned None"
proof (induction ps arbitrary: w)
  case Nil
  show ?case by simp
next
  case (Cons p ps)
  from assms have "page_status (fst (f p w))"
    by (simp add: page_function_def)
  then show ?case
  proof (cases rule: page_status_cases)
    case 1
    then show ?thesis by (simp only: render_pages_exit) simp
  next
    case 2
    then show ?thesis by (simp only: render_pages_ok Cons.IH)
  next
    case (3 err)
    then show ?thesis by (simp only: render_pages_err) (simp add: log_Fatal_def)
  qed
qed

lemma render_pages_frame:
  assumes "page_function f" and "q \<notin> html_path ` set ps"
  shows "fs (snd (render_pages f ps w)) q = fs w q"
  using assms(2)
proof (induction ps arbitrary: w)
  case Nil
  show ?case by simp
next
  case (Cons p ps)
  then have q: "q \<noteq> html_path p" and rest: "q \<notin> html_path ` set ps"
    by auto
  from assms(1) q have step: "fs (snd (f p w)) q = fs w q"
    by (simp add: page_function_def)
  from assms have "page_status (fst (f p w))"
    by (simp add: page_function_def)
  then show ?case
  proof (cases rule: page_status_cases)
    case 1
    then show ?thesis using step by (simp only: render_pages_exit)
  next
    case 2
    then show ?thesis using step Cons.IH [OF rest, of "snd (f p w)"]
      by (simp only: render_pages_ok)
  next
    case (3 err)
    then show ?thesis using step by (simp only: render_pages_err) (simp add: log_Fatal_def)
  qed
qed

text \<open>
  A page that ends the process without changing the file system whenever its log has
  the contents \<open>c\<close> (none, or some the decoder rejects): the loop then ends the process,
  at that page or before, and the page's output file is as it was.
\<close>

lemma render_pages_failing_page:
  assumes pf: "page_function f"
    and fail: "\<And>w. fs w (log_path name) = c \<Longrightarrow>
                 fst (f name w) = Exited 1 \<and> fs (snd (f name w)) = fs w"
    and "name \<in> set ps" and "fs w (log_path name) = c"
  shows "fst (render_pages f ps w) = Exited 1
       \<and> fs (snd (render_pages f ps w)) (html_path name) = fs w (html_path name)"
  using assms(3,4)
proof (induction ps arbitrary: w)
  case Nil
  then show ?case by simp
next
  case (Cons p ps)
  show ?case
  proof (cases "p = name")
    case True
    with fail [OF Cons.prems(2)] show ?thesis
      by (simp add: render_pages_exit del: render_pages.simps)
  next
    case False
    then have h: "html_path name \<noteq> html_path p"
      by (simp add: html_path_inj)
    from pf h have keep: "fs (snd (f p w)) (html_path name) = fs w (html_path name)"
      by (simp add: page_function_def)
    from pf have "fs (snd (f p w)) (log_path name) = fs w (log_path name)"
      by (simp add: page_function_def log_path_not_html)
    with Cons.prems have c: "fs (snd (f p w)) (log_path name) = c"
      by simp
    from False Cons.prems have mem: "name \<in> set ps"
      by simp
    from pf have "page_status (fst (f p w))"
      by (simp add: page_function_def)
    then show ?thesis
    proof (cases rule: page_status_cases)
      case 1
      then show ?thesis using keep by (simp add: render_pages_exit del: render_pages.simps)
    next
      case 2
      then show ?thesis using keep Cons.IH [OF mem c]
        by (simp only: render_pages_ok)
    next
      case (3 err)
      then show ?thesis using keep by (simp only: render_pages_err) (simp add: log_Fatal_def)
    qed
  qed
qed

lemma main_unfold:
  "main e w =
     (if fst (render_pages (renderMatrixPage e) matrixFiles w) = Returned None
      then (if fst (render_pages (renderBatteryMeasurementPage e) batteryMeasurementFiles
                      (snd (render_pages (renderMatrixPage e) matrixFiles w))) = Returned None
            then serve (snd (render_pages (renderBatteryMeasurementPage e) batteryMeasurementFiles
                               (snd (render_pages (renderMatrixPage e) matrixFiles w))))
            else render_pages (renderBatteryMeasurementPage e) batteryMeasurementFiles
                   (snd (render_pages (renderMatrixPage e) matrixFiles w)))
      else render_pages (renderMatrixPage e) matrixFiles w)"
  by (auto simp add: main_def split: prod.splits status.splits option.splits)

lemma main_main_go_unfold:
  "main_main_go e w =
     (if fst (render_pages (renderPage e) files_main_go w) = Returned None
      then serve (snd (render_pages (renderPage e) files_main_go w))
      else render_pages (renderPage e) files_main_go w)"
  by (auto simp add: main_main_go_def split: prod.splits status.splits option.splits)

lemma main_failing_matrix_page:
  assumes "\<And>w. fs w (log_path name) = c \<Longrightarrow>
             fst (renderMatrixPage e name w) = Exited 1 \<and> fs (snd (renderMatrixPage e name w)) = fs w"
    and "name \<in> set matrixFiles" and "fs w (log_path name) = c"
  shows "fst (main e w) = Exited 1 \<and> fs (snd (main e w)) (html_path name) = fs w (html_path name)"
  using render_pages_failing_page [OF page_functions(1) assms]
  by (simp add: main_unfold)

lemma main_main_go_failing_page:
  assumes "\<And>w. fs w (log_path name) = c \<Longrightarrow>
             fst (renderPage e name w) = Exited 1 \<and> fs (snd (renderPage e name w)) = fs w"
    and "name \<in> set files_main_go" and "fs w (log_path name) = c"
  shows "fst (main_main_go e w) = Exited 1
       \<and> fs (snd (main_main_go e w)) (html_path name) = fs w (html_path name)"
  using render_pages_failing_page [OF page_functions(2) assms]
  by (simp add: main_main_go_unfold)

lemma main_failing_battery_page:
  assumes fail: "\<And>w. fs w (log_path name) = c \<Longrightarrow>
             fst (renderBatteryMeasurementPage e name w) = Exited 1
             \<and> fs (snd (renderBatteryMeasurementPage e name w)) = fs w"
    and mem: "name \<in> set batteryMeasurementFiles" and c: "fs w (log_path name) = c"
  shows "fst (main e w) = Exited 1 \<and> fs (snd (main e w)) (html_path name) = fs w (html_path name)"
proof -
  let ?r1 = "render_pages (renderMatrixPage e) matrixFiles w"
  from mem have "name \<notin> set matrixFiles"
    by (simp add: batteryMeasurementFiles_def matrixFiles_def)
  then have "html_path name \<notin> html_path ` set matrixFiles"
    by (auto simp add: html_path_inj)
  then have keep: "fs (snd ?r1) (html_path name) = fs w (html_path name)"
    by (rule render_pages_frame [OF page_functions(1)])
  have "log_path name \<notin> html_path ` set matrixFiles"
    by (auto simp add: log_path_not_html)
  then have "fs (snd ?r1) (log_path name) = fs w (log_path name)"
    by (rule render_pages_frame [OF page_functions(1)])
  with c have c1: "fs (snd ?r1) (log_path name) = c"
    by simp
  from render_pages_status [OF page_functions(1), of e matrixFiles w]
  show ?thesis
  proof
    assume "fst ?r1 = Exited 1"
    with keep show ?thesis
      by (simp add: main_unfold)
  next
    assume ok: "fst ?r1 = Returned None"
    from render_pages_failing_page [OF page_functions(3) fail mem c1] keep ok
    show ?thesis
      by (simp add: main_unfold)
  qed
qed

lemma render_pages_reaches:
  assumes "page_function f" and "render_pages f before w0 = (Returned None, w)"
    and "f name w = (Exited 1, w')"
  shows "render_pages f (before @ name # after) w0 = (Exited 1, w')"
  using assms(2,3) by (simp add: render_pages_append [OF assms(1)])

lemma renderMatrixPage_unreadable:
  "fs w (log_path name) = None \<Longrightarrow>
   renderMatrixPage e name w =
     (Exited 1, did [EvReadFile (log_path name), EvLogFatal ''matrix file missing '' IOError] w)"
  by (simp add: renderMatrixPage_def Let_def log_Fatal_def did_did)

lemma renderPage_unreadable:
  "fs w (log_path name) = None \<Longrightarrow>
   renderPage e name w =
     (Exited 1, did [EvReadFile (log_path name), EvLogFatal ''matrix file missing '' IOError] w)"
  by (simp add: renderPage_def Let_def log_Fatal_def did_did)

lemma renderBatteryMeasurementPage_unreadable:
  "fs w (log_path name) = None \<Longrightarrow>
   renderBatteryMeasurementPage e name w =
     (Exited 1, did [EvReadFile (log_path name), EvLogFatal ''matrix file missing '' IOError] w)"
  by (simp add: renderBatteryMeasurementPage_def Let_def log_Fatal_def did_did)

lemma renderMatrixPage_malformed:
  "fs w (log_path name) = Some file \<Longrightarrow> unmarshal_matrix e file = None \<Longrightarrow>
   renderMatrixPage e name w =
     (Exited 1, did [EvReadFile (log_path name), EvUnmarshal,
                     EvLogFatal ''matrix file missing '' ParseError] w)"
  by (simp add: renderMatrixPage_def Let_def log_Fatal_def did_did)

lemma renderPage_malformed:
  "fs w (log_path name) = Some file \<Longrightarrow> unmarshal_matrix e file = None \<Longrightarrow>
   renderPage e name w =
     (Exited 1, did [EvReadFile (log_path name), EvUnmarshal,
                     EvLogFatal ''matrix file missing '' ParseError] w)"
  by (simp add: renderPage_def Let_def log_Fatal_def did_did)

lemma renderBatteryMeasurementPage_malformed:
  "fs w (log_path name) = Some file \<Longrightarrow> unmarshal_battery e file = None \<Longrightarrow>
   renderBatteryMeasurementPage e name w =
     (Exited 1, did [EvReadFile (log_path name), EvUnmarshal,
                     EvLogFatal ''matrix file missing '' ParseError] w)"
  by (simp add: renderBatteryMeasurementPage_def Let_def log_Fatal_def did_did)

text \<open>The int64 difference is the difference of the signed values whenever that fits.\<close>

lemma int64_difference:
  fixes a b :: int64
  assumes "- (2 ^ 63) \<le> sint a - sint b" and "sint a - sint b < 2 ^ 63"
  shows "sint (a - b) = sint a - sint b"
proof -
  have "sint (a - b) = signed_take_bit 63 (sint a - sint b)"
    by (simp add: sint_word_ariths)
  also have "\<dots> = sint a - sint b"
    using assms by (simp add: signed_take_bit_int_eq_self)
  finally show ?thesis .
qed

section \<open>The claims\<close>

text \<open>
  C1. Whatever order the range over \<open>NodeMatrix\<close> takes, the series of \<open>bleToWifi\<close>
  (in both source files) is the single series "BLE to Wifi" holding, for the
  connection-history entries of all nodes in the order met, one point for each entry
  whose \<open>WifiConnectedAt\<close> is not zero and none for the others; the point's value is
  the int64 difference \<open>WifiConnectedAt - BLEDiscoveredAt\<close>, not validated. The entries
  met are, as a multiset, the histories of all nodes of the map, so the number of
  points is the number of connected entries summed over the nodes. For a matrix with
  one node whose history is \<open>[{100, 105}, {200, 0}]\<close> the points are exactly the value 5.
  Read as a signed number, a point's value is the difference of the two signed
  timestamps whenever that difference fits in 64 bits, negative differences included.
\<close>

theorem bleToWifi_one_point_per_connected_entry:
  assumes "range_order (NodeMatrix data) order"
  shows "series_of (bleToWifi order data) =
           [(''BLE to Wifi'', map wifi_point (filter wifi_connected (history_entries order data)))]
       \<and> series_of (bleToWifi_main_go order data) =
           [(''BLE to Wifi'', map wifi_point (filter wifi_connected (history_entries order data)))]
       \<and> mset (history_entries order data) =
           (\<Sum>key\<in>dom (NodeMatrix data). mset (ConnectionHistory (the (NodeMatrix data key))))
       \<and> length (points_of (bleToWifi order data)) =
           (\<Sum>key\<in>dom (NodeMatrix data).
              length (filter wifi_connected (ConnectionHistory (the (NodeMatrix data key)))))
       \<and> (\<forall>key v k1 k2.
             NodeMatrix data = [key \<mapsto> v] \<and> ConnectionHistory v = [k1, k2]
             \<and> ConnectionInfo.BLEDiscoveredAt k1 = 100 \<and> ConnectionInfo.WifiConnectedAt k1 = 105
             \<and> ConnectionInfo.BLEDiscoveredAt k2 = 200 \<and> ConnectionInfo.WifiConnectedAt k2 = 0
             \<longrightarrow> points_of (bleToWifi order data) = [LineData (VInt64 5)])
       \<and> (\<forall>k. - (2 ^ 63) \<le> sint (ConnectionInfo.WifiConnectedAt k)
                                  - sint (ConnectionInfo.BLEDiscoveredAt k)
                \<and> sint (ConnectionInfo.WifiConnectedAt k)
                    - sint (ConnectionInfo.BLEDiscoveredAt k) < 2 ^ 63
             \<longrightarrow> (\<exists>y. wifi_point k = LineData (VInt64 y)
                      \<and> sint y = sint (ConnectionInfo.WifiConnectedAt k)
                                  - sint (ConnectionInfo.BLEDiscoveredAt k)))"
proof -
  let ?sel = "filter wifi_connected (history_entries order data)"
  have s1: "series_of (bleToWifi order data) = [(''BLE to Wifi'', map wifi_point ?sel)]"
    by (simp add: series_bleToWifi bleToWifi_axes_eq)
  have s2: "series_of (bleToWifi_main_go order data) = [(''BLE to Wifi'', map wifi_point ?sel)]"
    by (simp add: series_bleToWifi bleToWifi_axes_eq)
  have pts: "points_of (bleToWifi order data) = map wifi_point ?sel"
    by (simp add: points_bleToWifi bleToWifi_axes_eq)
  have m: "mset (history_entries order data) =
           (\<Sum>key\<in>dom (NodeMatrix data). mset (ConnectionHistory (the (NodeMatrix data key))))"
    unfolding history_entries_def by (rule mset_concat_range [OF assms])
  have "?sel = concat (map (\<lambda>v. filter wifi_connected (ConnectionHistory v))
                        (range_values (NodeMatrix data) order))"
    by (simp add: history_entries_def filter_concat comp_def)
  then have n: "length (points_of (bleToWifi order data)) =
           (\<Sum>key\<in>dom (NodeMatrix data).
              length (filter wifi_connected (ConnectionHistory (the (NodeMatrix data key)))))"
    using length_concat_range [OF assms, of "\<lambda>v. filter wifi_connected (ConnectionHistory v)"]
    by (simp add: pts)
  have ex: "points_of (bleToWifi order data) = [LineData (VInt64 5)]"
    if "NodeMatrix data = [key \<mapsto> v]" "ConnectionHistory v = [k1, k2]"
       "ConnectionInfo.BLEDiscoveredAt k1 = 100" "ConnectionInfo.WifiConnectedAt k1 = 105"
       "ConnectionInfo.BLEDiscoveredAt k2 = 200" "ConnectionInfo.WifiConnectedAt k2 = 0"
    for key v k1 k2
  proof -
    from assms that(1) have "order = [key]"
      by (simp add: range_order_single)
    with that show ?thesis
      by (simp add: points_bleToWifi bleToWifi_axes_eq history_entries_def range_values_def
                    List.map_filter_simps wifi_connected_def wifi_point_def)
  qed
  have diff: "\<exists>y. wifi_point k = LineData (VInt64 y)
                \<and> sint y = sint (ConnectionInfo.WifiConnectedAt k)
                            - sint (ConnectionInfo.BLEDiscoveredAt k)"
    if "- (2 ^ 63) \<le> sint (ConnectionInfo.WifiConnectedAt k)
                        - sint (ConnectionInfo.BLEDiscoveredAt k)"
       "sint (ConnectionInfo.WifiConnectedAt k) - sint (ConnectionInfo.BLEDiscoveredAt k) < 2 ^ 63"
    for k
    using int64_difference [OF that] by (simp add: wifi_point_def)
  from s1 s2 m n ex diff show ?thesis by blast
qed

theorem bleToWifi_scenario_witness:
  "range_order (NodeMatrix scenario) [''n1'']
   \<and> series_of (bleToWifi [''n1''] scenario) = [(''BLE to Wifi'', [LineData (VInt64 5)])]
   \<and> length (points_of (bleToWifi [''n1''] scenario)) = 1
   \<and> range_order (NodeMatrix two_nodes) [''a'', ''b'']
   \<and> points_of (bleToWifi [''a'', ''b''] two_nodes) = [LineData (VInt64 3), LineData (VInt64 (- 5))]
   \<and> sint (- 5 :: int64) = sint (25 :: int64) - sint (30 :: int64)"
proof -
  have a: "range_order (NodeMatrix scenario) [''n1'']"
    by (simp add: range_order_def scenario_def)
  have b: "range_order (NodeMatrix two_nodes) [''a'', ''b'']"
    by (auto simp add: range_order_def two_nodes_def)
  have h: "filter wifi_connected (history_entries [''n1''] scenario) = [connection 100 105 (- 60) 54]"
    by (simp add: scenario_def history_entries_def range_values_def List.map_filter_simps
                  node_def connection_def wifi_connected_def)
  have h': "filter wifi_connected (history_entries [''a'', ''b''] two_nodes) =
              [connection 10 13 0 0, connection 30 25 0 0]"
    by (simp add: two_nodes_def history_entries_def range_values_def List.map_filter_simps
                  node_def connection_def wifi_connected_def)
  have p: "points_of c = concat (map snd (series_of c))" for c :: Line
    by (simp add: points_of_def series_of_def comp_def)
  from a b bleToWifi_one_point_per_connected_entry [OF a]
       bleToWifi_one_point_per_connected_entry [OF b]
  show ?thesis
    by (simp add: h h' p wifi_point_def connection_def)
qed

text \<open>
  C4. Whatever order the range over \<open>NodeMatrix\<close> takes, the series of \<open>bleToIpfs\<close>
  (in both source files) is the single series "BLE to IPFS" holding one point for every
  value of \<open>DiscoveryDelays\<close> of every node, in the order met, the point's value being
  the delay itself; no delay is filtered out. The delays met are, as a multiset, the
  delays of all nodes of the map, so the number of points is their total count.
\<close>

theorem bleToIpfs_one_point_per_delay:
  assumes "range_order (NodeMatrix data) order"
  shows "series_of (bleToIpfs order data) =
           [(''BLE to IPFS'', map (\<lambda>k. LineData (VInt64 k)) (delay_entries order data))]
       \<and> series_of (bleToIpfs_main_go order data) =
           [(''BLE to IPFS'', map (\<lambda>k. LineData (VInt64 k)) (delay_entries order data))]
       \<and> mset (delay_entries order data) =
           (\<Sum>key\<in>dom (NodeMatrix data). mset (DiscoveryDelays (the (NodeMatrix data key))))
       \<and> length (points_of (bleToIpfs order data)) =
           (\<Sum>key\<in>dom (NodeMatrix data). length (DiscoveryDelays (the (NodeMatrix data key))))"
proof -
  have "mset (delay_entries order data) =
          (\<Sum>key\<in>dom (NodeMatrix data). mset (DiscoveryDelays (the (NodeMatrix data key))))"
    unfolding delay_entries_def by (rule mset_concat_range [OF assms])
  moreover have "length (points_of (bleToIpfs order data)) =
          (\<Sum>key\<in>dom (NodeMatrix data). length (DiscoveryDelays (the (NodeMatrix data key))))"
    using length_concat_range [OF assms, of DiscoveryDelays]
    by (simp add: points_bleToIpfs bleToIpfs_axes_eq delay_entries_def)
  ultimately show ?thesis
    by (simp add: series_bleToIpfs bleToIpfs_axes_eq)
qed

theorem bleToIpfs_two_nodes_witness:
  "range_order (NodeMatrix two_nodes) [''a'', ''b'']
   \<and> series_of (bleToIpfs [''a'', ''b''] two_nodes) =
       [(''BLE to IPFS'', [LineData (VInt64 1), LineData (VInt64 2), LineData (VInt64 3)])]
   \<and> length (points_of (bleToIpfs [''a'', ''b''] two_nodes)) = 3"
proof -
  have a: "range_order (NodeMatrix two_nodes) [''a'', ''b'']"
    by (auto simp add: range_order_def two_nodes_def)
  have "delay_entries [''a'', ''b''] two_nodes = [1, 2, 3]"
    by (simp add: two_nodes_def delay_entries_def range_values_def List.map_filter_simps
                  node_def)
  with a bleToIpfs_one_point_per_delay [OF a] show ?thesis
    by (simp add: points_bleToIpfs bleToIpfs_axes_eq)
qed

text \<open>
  C5. Whatever order the range over \<open>NodeMatrix\<close> takes, the series of \<open>rssiSpeed\<close>
  (in both source files) is the single series "RSSI Speed" holding one two-dimensional
  point for every connection-history entry of every node, in the order met, with the
  entry's \<open>RSSI\<close> and \<open>Speed\<close> as its coordinates; no entry is filtered out.
\<close>

theorem rssiSpeed_one_point_per_entry:
  assumes "range_order (NodeMatrix data) order"
  shows "series_of (rssiSpeed order data) =
           [(''RSSI Speed'',
             map (\<lambda>k. ParallelData (VList [VInt (ConnectionInfo.RSSI k),
                                             VInt (ConnectionInfo.Speed k)]))
                 (history_entries order data))]
       \<and> series_of (rssiSpeed_main_go order data) = series_of (rssiSpeed order data)
       \<and> mset (history_entries order data) =
           (\<Sum>key\<in>dom (NodeMatrix data). mset (ConnectionHistory (the (NodeMatrix data key))))
       \<and> length (points_of (rssiSpeed order data)) =
           (\<Sum>key\<in>dom (NodeMatrix data). length (ConnectionHistory (the (NodeMatrix data key))))"
proof -
  have "mset (history_entries order data) =
          (\<Sum>key\<in>dom (NodeMatrix data). mset (ConnectionHistory (the (NodeMatrix data key))))"
    unfolding history_entries_def by (rule mset_concat_range [OF assms])
  moreover have "length (points_of (rssiSpeed order data)) =
          (\<Sum>key\<in>dom (NodeMatrix data). length (ConnectionHistory (the (NodeMatrix data key))))"
    using length_concat_range [OF assms, of ConnectionHistory]
    by (simp add: points_rssiSpeed rssiSpeed_items_eq history_entries_def)
  moreover have "rssi_point = (\<lambda>k. ParallelData (VList [VInt (ConnectionInfo.RSSI k),
                                             VInt (ConnectionInfo.Speed k)]))"
    by (rule ext) (simp add: rssi_point_def)
  ultimately show ?thesis
    by (simp add: series_rssiSpeed rssiSpeed_items_eq)
qed

theorem rssiSpeed_scenario_witness:
  "range_order (NodeMatrix scenario) [''n1'']
   \<and> series_of (rssiSpeed [''n1''] scenario) =
       [(''RSSI Speed'', [ParallelData (VList [VInt (- 60), VInt 54]),
                          ParallelData (VList [VInt (- 71), VInt 0])])]
   \<and> length (points_of (rssiSpeed [''n1''] scenario)) = 2"
  using rssiSpeed_one_point_per_entry [of scenario "[''n1'']"]
  by (simp add: range_order_def scenario_def history_entries_def range_values_def
                List.map_filter_simps node_def connection_def)

text \<open>
  C10. For any matrix and any order of the ranges, the x axis of each of the three line
  charts (in both source files) is the sequence 0, 1, ..., n - 1, where n is the number
  of points of the chart; so it is as long as the y-value sequence.
\<close>

theorem line_chart_x_axis_counts_points:
  "XAxis (bleToWifi order data) = [0 ..< length (points_of (bleToWifi order data))]
   \<and> XAxis (bleToIpfs order data) = [0 ..< length (points_of (bleToIpfs order data))]
   \<and> XAxis (downloadSpeed lib order' data) =
       [0 ..< length (points_of (downloadSpeed lib order' data))]
   \<and> XAxis (bleToWifi_main_go order data) =
       [0 ..< length (points_of (bleToWifi_main_go order data))]
   \<and> XAxis (bleToIpfs_main_go order data) =
       [0 ..< length (points_of (bleToIpfs_main_go order data))]
   \<and> XAxis (downloadSpeed_main_go lib order' data) =
       [0 ..< length (points_of (downloadSpeed_main_go lib order' data))]
   \<and> length (XAxis (bleToWifi order data)) = length (points_of (bleToWifi order data))
   \<and> length (XAxis (bleToIpfs order data)) = length (points_of (bleToIpfs order data))
   \<and> length (XAxis (downloadSpeed lib order' data)) =
       length (points_of (downloadSpeed lib order' data))"
  by (simp add: XAxis_bleToWifi points_bleToWifi bleToWifi_axes_eq
                XAxis_bleToIpfs points_bleToIpfs bleToIpfs_axes_eq
                XAxis_downloadSpeed points_downloadSpeed downloadSpeed_axes_eq)

theorem line_chart_x_axis_witness:
  "XAxis (bleToWifi [''a'', ''b''] two_nodes) = [0, 1]
   \<and> XAxis (bleToIpfs [''a'', ''b''] two_nodes) = [0, 1, 2]
   \<and> XAxis (downloadSpeed sample_lib [''tag''] scenario) = [0]"
  using line_chart_x_axis_counts_points [of "[''a'', ''b'']" two_nodes sample_lib "[''tag'']"]
        line_chart_x_axis_counts_points [of "[''tag'']" scenario sample_lib "[''tag'']"]
  by (simp add: points_bleToWifi points_bleToIpfs points_downloadSpeed
                bleToWifi_axes_eq bleToIpfs_axes_eq downloadSpeed_axes_eq
                two_nodes_def scenario_def history_entries_def delay_entries_def
                range_values_def List.map_filter_simps node_def connection_def
                wifi_connected_def upt_rec)

text \<open>
  C9. If two ranges over the same \<open>NodeMatrix\<close> take different orders, the y-values of
  \<open>bleToWifi\<close> and of \<open>bleToIpfs\<close> are the same multiset, and the x axes are equal:
  only the pairing of the indices with the values can differ. The output is a function of
  the matrix and the order, hence determined by them.
\<close>

theorem y_values_independent_of_range_order:
  assumes "range_order (NodeMatrix data) ks" and "range_order (NodeMatrix data) ks'"
  shows "mset (points_of (bleToWifi ks data)) = mset (points_of (bleToWifi ks' data))
       \<and> mset (points_of (bleToIpfs ks data)) = mset (points_of (bleToIpfs ks' data))
       \<and> XAxis (bleToWifi ks data) = XAxis (bleToWifi ks' data)
       \<and> XAxis (bleToIpfs ks data) = XAxis (bleToIpfs ks' data)"
proof -
  have h: "mset (history_entries ks data) = mset (history_entries ks' data)"
    unfolding history_entries_def by (rule mset_concat_range_perm [OF assms])
  have d: "mset (delay_entries ks data) = mset (delay_entries ks' data)"
    unfolding delay_entries_def by (rule mset_concat_range_perm [OF assms])
  have w: "mset (filter wifi_connected (history_entries ks data)) =
           mset (filter wifi_connected (history_entries ks' data))"
    using h by (metis mset_filter)
  have "mset (map wifi_point (filter wifi_connected (history_entries ks data))) =
        mset (map wifi_point (filter wifi_connected (history_entries ks' data)))"
    using w by (metis mset_map)
  moreover have "mset (map (\<lambda>k. LineData (VInt64 k)) (delay_entries ks data)) =
        mset (map (\<lambda>k. LineData (VInt64 k)) (delay_entries ks' data))"
    using d by (metis mset_map)
  moreover have "length (filter wifi_connected (history_entries ks data)) =
        length (filter wifi_connected (history_entries ks' data))"
    using w by (metis size_mset)
  moreover have "length (delay_entries ks data) = length (delay_entries ks' data)"
    using d by (metis size_mset)
  ultimately show ?thesis
    by (simp add: points_bleToWifi points_bleToIpfs XAxis_bleToWifi XAxis_bleToIpfs
                  bleToWifi_axes_eq bleToIpfs_axes_eq)
qed

theorem range_order_witness:
  "range_order (NodeMatrix two_nodes) [''a'', ''b'']
   \<and> range_order (NodeMatrix two_nodes) [''b'', ''a'']
   \<and> mset (points_of (bleToIpfs [''a'', ''b''] two_nodes)) =
       mset (points_of (bleToIpfs [''b'', ''a''] two_nodes))
   \<and> mset (points_of (bleToWifi [''a'', ''b''] two_nodes)) =
       mset (points_of (bleToWifi [''b'', ''a''] two_nodes))
   \<and> points_of (bleToIpfs [''a'', ''b''] two_nodes) \<noteq> points_of (bleToIpfs [''b'', ''a''] two_nodes)"
proof -
  have a: "range_order (NodeMatrix two_nodes) [''a'', ''b'']"
    by (auto simp add: range_order_def two_nodes_def)
  have b: "range_order (NodeMatrix two_nodes) [''b'', ''a'']"
    by (auto simp add: range_order_def two_nodes_def)
  have "points_of (bleToIpfs [''a'', ''b''] two_nodes) \<noteq> points_of (bleToIpfs [''b'', ''a''] two_nodes)"
    by (simp add: points_bleToIpfs bleToIpfs_axes_eq two_nodes_def delay_entries_def
                  range_values_def List.map_filter_simps node_def)
  with a b y_values_independent_of_range_order [OF a b] show ?thesis
    by simp
qed



text \<open>
  C3. For every input, the bar chart has exactly the two series "10Mb" and "100Mb", in
  that order: the first holds the \<open>BatteryConsumption\<close> of the measurements whose
  \<open>DataTransfer\<close> is "10", the second of those whose \<open>DataTransfer\<close> is "100", each in
  input order. No measurement is selected for both, and a measurement with any other
  \<open>DataTransfer\<close>, such as "50", is selected for neither. The function has no failing
  branch: it returns this chart for every input.
\<close>

theorem battery_series_by_DataTransfer:
  "series_of (transferIntervalToBatteryPercentage data) =
     [(''10Mb'', map (\<lambda>v. BarData (VString (BatteryConsumption v)))
                   (filter (\<lambda>v. DataTransfer v = ''10'') (BatteryMeasurement data))),
      (''100Mb'', map (\<lambda>v. BarData (VString (BatteryConsumption v)))
                    (filter (\<lambda>v. DataTransfer v = ''100'') (BatteryMeasurement data)))]
   \<and> filter (\<lambda>v. DataTransfer v = ''100'')
        (filter (\<lambda>v. DataTransfer v = ''10'') (BatteryMeasurement data)) = []
   \<and> filter (\<lambda>v. DataTransfer v = ''10'' \<or> DataTransfer v = ''100'')
        (filter (\<lambda>v. DataTransfer v = ''50'') (BatteryMeasurement data)) = []
   \<and> length (points_of (transferIntervalToBatteryPercentage data))
       + length (filter (\<lambda>v. DataTransfer v \<noteq> ''10'' \<and> DataTransfer v \<noteq> ''100'')
                   (BatteryMeasurement data))
       = length (BatteryMeasurement data)"
proof -
  have p10: "is_10 = (\<lambda>v. DataTransfer v = ''10'')"
    by (rule ext) (simp add: is_10_def)
  have p100: "is_100 = (\<lambda>v. DataTransfer v = ''100'')"
    by (rule ext) (simp add: is_100_def)
  have bp: "bar_point = (\<lambda>v. BarData (VString (BatteryConsumption v)))"
    by (rule ext) (simp add: bar_point_def)
  have s: "series_of (transferIntervalToBatteryPercentage data) =
     [(''10Mb'', map (\<lambda>v. BarData (VString (BatteryConsumption v)))
                   (filter (\<lambda>v. DataTransfer v = ''10'') (BatteryMeasurement data))),
      (''100Mb'', map (\<lambda>v. BarData (VString (BatteryConsumption v)))
                    (filter (\<lambda>v. DataTransfer v = ''100'') (BatteryMeasurement data)))]"
    using series_battery [of data] by (simp add: p10 p100 bp)
  have part: "length (filter (\<lambda>v. DataTransfer v = ''10'') ms)
              + length (filter (\<lambda>v. DataTransfer v = ''100'') ms)
              + length (filter (\<lambda>v. DataTransfer v \<noteq> ''10'' \<and> DataTransfer v \<noteq> ''100'') ms)
              = length ms" for ms :: "Measurement list"
    by (induction ms) auto
  have "points_of (transferIntervalToBatteryPercentage data) =
          map bar_point (filter is_10 (BatteryMeasurement data))
          @ map bar_point (filter is_100 (BatteryMeasurement data))"
    by (simp add: points_battery)
  then have n: "length (points_of (transferIntervalToBatteryPercentage data))
       + length (filter (\<lambda>v. DataTransfer v \<noteq> ''10'' \<and> DataTransfer v \<noteq> ''100'')
                   (BatteryMeasurement data))
       = length (BatteryMeasurement data)"
    using part [of "BatteryMeasurement data"] by (simp add: p10 p100)
  have d1: "filter (\<lambda>v. DataTransfer v = ''100'')
        (filter (\<lambda>v. DataTransfer v = ''10'') (BatteryMeasurement data)) = []"
    by (simp add: filter_empty_conv)
  have d2: "filter (\<lambda>v. DataTransfer v = ''10'' \<or> DataTransfer v = ''100'')
        (filter (\<lambda>v. DataTransfer v = ''50'') (BatteryMeasurement data)) = []"
    by (simp add: filter_empty_conv)
  from s d1 d2 n show ?thesis by blast
qed

theorem battery_series_witness:
  "series_of (transferIntervalToBatteryPercentage sample_battery) =
     [(''10Mb'', [BarData (VString ''5''), BarData (VString ''7'')]),
      (''100Mb'', [BarData (VString ''12'')])]"
  using battery_series_by_DataTransfer [of sample_battery]
  by (simp add: sample_battery_def measurement_def)

text \<open>
  C8. For every input, the x axis of the bar chart is the two labels "40s" and "120s";
  and two inputs whose measurements agree, one by one, in \<open>DataTransfer\<close> and
  \<open>BatteryConsumption\<close>, that is, differ at most in \<open>TransferInterval\<close>, give the same
  chart.
\<close>

theorem battery_chart_ignores_TransferInterval:
  "XAxis (transferIntervalToBatteryPercentage data) = [''40s'', ''120s'']
   \<and> (map (\<lambda>v. (DataTransfer v, BatteryConsumption v)) (BatteryMeasurement data) =
       map (\<lambda>v. (DataTransfer v, BatteryConsumption v)) (BatteryMeasurement data')
       \<longrightarrow> transferIntervalToBatteryPercentage data = transferIntervalToBatteryPercentage data')"
proof -
  have sel: "map bar_point (filter P ms) =
             map (\<lambda>p. BarData (VString (snd p)))
               (filter (\<lambda>p. Q (fst p)) (map (\<lambda>v. (DataTransfer v, BatteryConsumption v)) ms))"
    if "\<And>v. P v = Q (DataTransfer v)" for P Q and ms :: "Measurement list"
    using that by (induction ms) (simp_all add: bar_point_def)
  have t: "map bar_point (filter is_10 ms) =
             map (\<lambda>p. BarData (VString (snd p)))
               (filter (\<lambda>p. fst p = ''10'') (map (\<lambda>v. (DataTransfer v, BatteryConsumption v)) ms))"
    for ms by (rule sel) (simp add: is_10_def)
  have h: "map bar_point (filter is_100 ms) =
             map (\<lambda>p. BarData (VString (snd p)))
               (filter (\<lambda>p. fst p = ''100'') (map (\<lambda>v. (DataTransfer v, BatteryConsumption v)) ms))"
    for ms by (rule sel) (simp add: is_100_def)
  have "transferIntervalToBatteryPercentage data = transferIntervalToBatteryPercentage data'"
    if "map (\<lambda>v. (DataTransfer v, BatteryConsumption v)) (BatteryMeasurement data) =
        map (\<lambda>v. (DataTransfer v, BatteryConsumption v)) (BatteryMeasurement data')"
    using that
    by (simp add: transferIntervalToBatteryPercentage_def battery_loop_eq Let_def t h)
  then show ?thesis
    by (simp add: XAxis_battery)
qed

theorem battery_chart_interval_witness:
  "BatteryMeasurement sample_battery \<noteq> BatteryMeasurement sample_battery'
   \<and> map (\<lambda>v. (DataTransfer v, BatteryConsumption v)) (BatteryMeasurement sample_battery) =
      map (\<lambda>v. (DataTransfer v, BatteryConsumption v)) (BatteryMeasurement sample_battery')
   \<and> transferIntervalToBatteryPercentage sample_battery =
      transferIntervalToBatteryPercentage sample_battery'
   \<and> XAxis (transferIntervalToBatteryPercentage sample_battery) = [''40s'', ''120s'']"
proof -
  have d: "BatteryMeasurement sample_battery \<noteq> BatteryMeasurement sample_battery'"
    by (simp add: sample_battery_def sample_battery'_def measurement_def)
  have m: "map (\<lambda>v. (DataTransfer v, BatteryConsumption v)) (BatteryMeasurement sample_battery) =
           map (\<lambda>v. (DataTransfer v, BatteryConsumption v)) (BatteryMeasurement sample_battery')"
    by (simp add: sample_battery_def sample_battery'_def measurement_def)
  from m battery_chart_ignores_TransferInterval [of sample_battery sample_battery']
  have "transferIntervalToBatteryPercentage sample_battery =
        transferIntervalToBatteryPercentage sample_battery'"
    and "XAxis (transferIntervalToBatteryPercentage sample_battery) = [''40s'', ''120s'']"
    by blast+
  with d m show ?thesis by blast
qed

text \<open>
  C6. If the log of a page cannot be read when the page function is called, the function
  (\<open>renderMatrixPage\<close>, \<open>renderPage\<close> of \<open>main.go\<close>, \<open>renderBatteryMeasurementPage\<close>)
  ends the process with status 1 right after the failed read, having logged the I/O
  error: it decodes nothing, runs no aggregator and creates no file, so the file system
  is as it was. A run of the loop that reaches the page ends there, and no later page
  is loaded. A run of \<open>main\<close> (of either source file) over a page whose log cannot be
  read ends with status 1, at that page or before, and never serves; the page's output
  file \<open>html/<name>.html\<close> is neither created nor truncated.
\<close>

theorem unreadable_log_ends_run_before_output:
  assumes "fs w (log_path name) = None"
  shows "renderMatrixPage e name w =
           (Exited 1, did [EvReadFile (log_path name),
                           EvLogFatal ''matrix file missing '' IOError] w)
       \<and> renderPage e name w = renderMatrixPage e name w
       \<and> renderBatteryMeasurementPage e name w = renderMatrixPage e name w
       \<and> fs (snd (renderMatrixPage e name w)) = fs w
       \<and> (\<forall>before after w0.
             render_pages (renderMatrixPage e) before w0 = (Returned None, w)
             \<longrightarrow> render_pages (renderMatrixPage e) (before @ name # after) w0 =
                   renderMatrixPage e name w)
       \<and> (name \<in> set matrixFiles \<union> set batteryMeasurementFiles
            \<longrightarrow> fst (main e w) = Exited 1
                \<and> fs (snd (main e w)) (html_path name) = fs w (html_path name))
       \<and> (name \<in> set files_main_go
            \<longrightarrow> fst (main_main_go e w) = Exited 1
                \<and> fs (snd (main_main_go e w)) (html_path name) = fs w (html_path name))"
proof -
  have m: "fst (renderMatrixPage e name w') = Exited 1 \<and> fs (snd (renderMatrixPage e name w')) = fs w'"
    if "fs w' (log_path name) = None" for w'
    using that by (simp add: renderMatrixPage_unreadable)
  have p: "fst (renderPage e name w') = Exited 1 \<and> fs (snd (renderPage e name w')) = fs w'"
    if "fs w' (log_path name) = None" for w'
    using that by (simp add: renderPage_unreadable)
  have b: "fst (renderBatteryMeasurementPage e name w') = Exited 1
           \<and> fs (snd (renderBatteryMeasurementPage e name w')) = fs w'"
    if "fs w' (log_path name) = None" for w'
    using that by (simp add: renderBatteryMeasurementPage_unreadable)
  have loop: "render_pages (renderMatrixPage e) (before @ name # after) w0 =
              renderMatrixPage e name w"
    if "render_pages (renderMatrixPage e) before w0 = (Returned None, w)" for before after w0
    using render_pages_reaches [OF page_functions(1) that renderMatrixPage_unreadable [OF assms]]
    by (simp add: renderMatrixPage_unreadable [OF assms])
  have run: "fst (main e w) = Exited 1
             \<and> fs (snd (main e w)) (html_path name) = fs w (html_path name)"
    if "name \<in> set matrixFiles \<union> set batteryMeasurementFiles"
    using that main_failing_matrix_page [OF m _ assms] main_failing_battery_page [OF b _ assms]
    by blast
  have run': "fst (main_main_go e w) = Exited 1
             \<and> fs (snd (main_main_go e w)) (html_path name) = fs w (html_path name)"
    if "name \<in> set files_main_go"
    using that main_main_go_failing_page [OF p _ assms] by blast
  from assms loop run run' show ?thesis
    by (simp add: renderMatrixPage_unreadable renderPage_unreadable
                  renderBatteryMeasurementPage_unreadable)
qed

theorem unreadable_log_witness:
  "fs no_logs (log_path ''zero_host_downloader'') = None
   \<and> ''zero_host_downloader'' \<in> set matrixFiles \<union> set batteryMeasurementFiles
   \<and> ''zero_host_downloader'' \<in> set files_main_go
   \<and> render_pages (renderMatrixPage sample_env) [] no_logs = (Returned None, no_logs)
   \<and> main sample_env no_logs =
       (Exited 1, \<lparr>fs = Map.empty,
                   trace = [EvReadFile ''logs/zero_host_downloader.log'',
                            EvLogFatal ''matrix file missing '' IOError]\<rparr>)
   \<and> fst (main_main_go sample_env no_logs) = Exited 1
   \<and> fs (snd (main sample_env no_logs)) (html_path ''zero_host_downloader'') = None"
proof -
  have a: "fs no_logs (log_path ''zero_host_downloader'') = None"
    by (simp add: no_logs_def)
  have b: "''zero_host_downloader'' \<in> set matrixFiles \<union> set batteryMeasurementFiles"
    by (simp add: matrixFiles_def)
  have c: "''zero_host_downloader'' \<in> set files_main_go"
    by (simp add: files_main_go_def)
  have d: "render_pages (renderMatrixPage sample_env) [] no_logs = (Returned None, no_logs)"
    by simp
  have m: "main sample_env no_logs =
             render_pages (renderMatrixPage sample_env)
               ([] @ ''zero_host_downloader'' #
                  [''zero_client_uploader'', ''five_host_downloader'', ''five_client_uploader''])
               no_logs"
    by (simp add: main_def matrixFiles_def renderMatrixPage_unreadable [OF a])
  from a b c d m unreadable_log_ends_run_before_output [OF a, of sample_env]
  show ?thesis
    by (simp add: no_logs_def did_def log_path_def)
qed

text \<open>
  C7. If the log of a page can be read but the decoder rejects its contents, the page
  function ends the process with status 1 right after the decoding, having logged the
  parse error: the trace gains the read, the decoding and the fatal log entry, and
  nothing else, so no aggregator has run on the file and no output file has been
  created. A run of the loop that reaches the page ends there: the pages after it are
  never loaded. A run of \<open>main\<close> (of either source file) over a page with such a log
  ends with status 1, at that page or before, and never serves; the page's output file
  is as it was. Pages rendered before it keep their output.
\<close>

theorem malformed_log_ends_run_before_aggregation:
  assumes "fs w (log_path name) = Some file"
  shows "(unmarshal_matrix e file = None \<longrightarrow>
            renderMatrixPage e name w =
              (Exited 1, did [EvReadFile (log_path name), EvUnmarshal,
                              EvLogFatal ''matrix file missing '' ParseError] w)
          \<and> renderPage e name w = renderMatrixPage e name w
          \<and> (\<forall>before after w0.
                render_pages (renderMatrixPage e) before w0 = (Returned None, w)
                \<longrightarrow> render_pages (renderMatrixPage e) (before @ name # after) w0 =
                      renderMatrixPage e name w)
          \<and> (name \<in> set matrixFiles
               \<longrightarrow> fst (main e w) = Exited 1
                   \<and> fs (snd (main e w)) (html_path name) = fs w (html_path name))
          \<and> (name \<in> set files_main_go
               \<longrightarrow> fst (main_main_go e w) = Exited 1
                   \<and> fs (snd (main_main_go e w)) (html_path name) = fs w (html_path name)))
       \<and> (unmarshal_battery e file = None \<longrightarrow>
            renderBatteryMeasurementPage e name w =
              (Exited 1, did [EvReadFile (log_path name), EvUnmarshal,
                              EvLogFatal ''matrix file missing '' ParseError] w)
          \<and> (name \<in> set batteryMeasurementFiles
               \<longrightarrow> fst (main e w) = Exited 1
                   \<and> fs (snd (main e w)) (html_path name) = fs w (html_path name)))"
proof -
  have matrix_part:
    "renderMatrixPage e name w =
       (Exited 1, did [EvReadFile (log_path name), EvUnmarshal,
                       EvLogFatal ''matrix file missing '' ParseError] w)
     \<and> renderPage e name w = renderMatrixPage e name w
     \<and> (\<forall>before after w0.
           render_pages (renderMatrixPage e) before w0 = (Returned None, w)
           \<longrightarrow> render_pages (renderMatrixPage e) (before @ name # after) w0 =
                 renderMatrixPage e name w)
     \<and> (name \<in> set matrixFiles
          \<longrightarrow> fst (main e w) = Exited 1
              \<and> fs (snd (main e w)) (html_path name) = fs w (html_path name))
     \<and> (name \<in> set files_main_go
          \<longrightarrow> fst (main_main_go e w) = Exited 1
              \<and> fs (snd (main_main_go e w)) (html_path name) = fs w (html_path name))"
    if bad: "unmarshal_matrix e file = None"
  proof -
    have m: "fst (renderMatrixPage e name w') = Exited 1
             \<and> fs (snd (renderMatrixPage e name w')) = fs w'"
      if "fs w' (log_path name) = Some file" for w'
      using that bad by (simp add: renderMatrixPage_malformed)
    have p: "fst (renderPage e name w') = Exited 1 \<and> fs (snd (renderPage e name w')) = fs w'"
      if "fs w' (log_path name) = Some file" for w'
      using that bad by (simp add: renderPage_malformed)
    have loop: "render_pages (renderMatrixPage e) (before @ name # after) w0 =
                renderMatrixPage e name w"
      if "render_pages (renderMatrixPage e) before w0 = (Returned None, w)" for before after w0
      using render_pages_reaches
              [OF page_functions(1) that renderMatrixPage_malformed [OF assms bad]]
      by (simp add: renderMatrixPage_malformed [OF assms bad])
    have run: "fst (main e w) = Exited 1
               \<and> fs (snd (main e w)) (html_path name) = fs w (html_path name)"
      if "name \<in> set matrixFiles"
      using main_failing_matrix_page [OF m that assms] .
    have run': "fst (main_main_go e w) = Exited 1
               \<and> fs (snd (main_main_go e w)) (html_path name) = fs w (html_path name)"
      if "name \<in> set files_main_go"
      using main_main_go_failing_page [OF p that assms] .
    from loop run run' show ?thesis
      by (simp add: renderMatrixPage_malformed [OF assms bad] renderPage_malformed [OF assms bad])
  qed
  have battery_part:
    "renderBatteryMeasurementPage e name w =
       (Exited 1, did [EvReadFile (log_path name), EvUnmarshal,
                       EvLogFatal ''matrix file missing '' ParseError] w)
     \<and> (name \<in> set batteryMeasurementFiles
          \<longrightarrow> fst (main e w) = Exited 1
              \<and> fs (snd (main e w)) (html_path name) = fs w (html_path name))"
    if bad: "unmarshal_battery e file = None"
  proof -
    have b: "fst (renderBatteryMeasurementPage e name w') = Exited 1
             \<and> fs (snd (renderBatteryMeasurementPage e name w')) = fs w'"
      if "fs w' (log_path name) = Some file" for w'
      using that bad by (simp add: renderBatteryMeasurementPage_malformed)
    have run: "fst (main e w) = Exited 1
               \<and> fs (snd (main e w)) (html_path name) = fs w (html_path name)"
      if "name \<in> set batteryMeasurementFiles"
      using main_failing_battery_page [OF b that assms] .
    from run show ?thesis
      by (simp add: renderBatteryMeasurementPage_malformed [OF assms bad])
  qed
  from matrix_part battery_part show ?thesis
    by blast
qed

theorem malformed_log_witness:
  "fs first_page_rendered (log_path ''zero_client_uploader'') = Some ''not json''
   \<and> unmarshal_matrix sample_env ''not json'' = None
   \<and> unmarshal_battery sample_env ''not json'' = None
   \<and> ''zero_client_uploader'' \<in> set matrixFiles
   \<and> ''zero_client_uploader'' \<in> set files_main_go
   \<and> render_pages (renderMatrixPage sample_env) [''zero_host_downloader''] second_log_malformed
       = (Returned None, first_page_rendered)
   \<and> render_pages (renderMatrixPage sample_env)
        ([''zero_host_downloader''] @ ''zero_client_uploader''
           # [''five_host_downloader'', ''five_client_uploader''])
        second_log_malformed
       = (Exited 1,
          did [EvReadFile ''logs/zero_client_uploader.log'', EvUnmarshal,
               EvLogFatal ''matrix file missing '' ParseError] first_page_rendered)
   \<and> fst (main sample_env first_page_rendered) = Exited 1
   \<and> fs (snd (main sample_env first_page_rendered)) (html_path ''zero_client_uploader'') = None
   \<and> fst (main_main_go sample_env first_page_rendered) = Exited 1
   \<and> fs battery_log_malformed (log_path ''battery_measurements'') = Some ''not json''
   \<and> ''battery_measurements'' \<in> set batteryMeasurementFiles
   \<and> fst (main sample_env battery_log_malformed) = Exited 1
   \<and> fs (snd (main sample_env battery_log_malformed)) (html_path ''battery_measurements'') = None"
proof -
  have a2: "fs battery_log_malformed (log_path ''battery_measurements'') = Some ''not json''"
    by (simp add: battery_log_malformed_def log_path_def)
  have c2: "''battery_measurements'' \<in> set batteryMeasurementFiles"
    by (simp add: batteryMeasurementFiles_def)
  have h2: "fs battery_log_malformed (html_path ''battery_measurements'') = None"
    by (simp add: battery_log_malformed_def html_path_def)
  have a: "fs first_page_rendered (log_path ''zero_client_uploader'') = Some ''not json''"
    by (simp add: first_page_rendered_def log_path_def)
  have b: "unmarshal_matrix sample_env ''not json'' = None"
    by (simp add: sample_env_def)
  have b': "unmarshal_battery sample_env ''not json'' = None"
    by (simp add: sample_env_def)
  have c: "''zero_client_uploader'' \<in> set matrixFiles"
    by (simp add: matrixFiles_def)
  have c': "''zero_client_uploader'' \<in> set files_main_go"
    by (simp add: files_main_go_def)
  have page: "renderMatrixPage sample_env ''zero_host_downloader'' second_log_malformed
              = (Returned None, first_page_rendered)"
    by (simp add: renderMatrixPage_def write_page_def Let_def sample_env_def
                  second_log_malformed_def first_page_rendered_def did_def log_path_def
                  html_path_def)
  have d: "render_pages (renderMatrixPage sample_env) [''zero_host_downloader'']
             second_log_malformed = (Returned None, first_page_rendered)"
    by (simp add: page)
  have h: "fs first_page_rendered (html_path ''zero_client_uploader'') = None"
    by (simp add: first_page_rendered_def html_path_def)
  note T = malformed_log_ends_run_before_aggregation [OF a, of sample_env]
  from T b have p: "renderMatrixPage sample_env ''zero_client_uploader'' first_page_rendered =
      (Exited 1, did [EvReadFile (log_path ''zero_client_uploader''), EvUnmarshal,
                      EvLogFatal ''matrix file missing '' ParseError] first_page_rendered)"
    by blast
  from T b have "\<forall>before after w0.
      render_pages (renderMatrixPage sample_env) before w0 = (Returned None, first_page_rendered)
      \<longrightarrow> render_pages (renderMatrixPage sample_env) (before @ ''zero_client_uploader'' # after) w0
          = renderMatrixPage sample_env ''zero_client_uploader'' first_page_rendered"
    by blast
  with d have l: "render_pages (renderMatrixPage sample_env)
        ([''zero_host_downloader''] @ ''zero_client_uploader''
           # [''five_host_downloader'', ''five_client_uploader''])
        second_log_malformed
      = renderMatrixPage sample_env ''zero_client_uploader'' first_page_rendered"
    by blast
  from T b c have m: "fst (main sample_env first_page_rendered) = Exited 1
      \<and> fs (snd (main sample_env first_page_rendered)) (html_path ''zero_client_uploader'')
          = fs first_page_rendered (html_path ''zero_client_uploader'')"
    by blast
  from T b c' have m': "fst (main_main_go sample_env first_page_rendered) = Exited 1"
    by blast
  from malformed_log_ends_run_before_aggregation [OF a2, of sample_env] b' c2
  have m2: "fst (main sample_env battery_log_malformed) = Exited 1
      \<and> fs (snd (main sample_env battery_log_malformed)) (html_path ''battery_measurements'')
          = fs battery_log_malformed (html_path ''battery_measurements'')"
    by blast
  have lp: "log_path ''zero_client_uploader'' = ''logs/zero_client_uploader.log''"
    by (simp add: log_path_def)
  from a b b' c c' d m m' h a2 c2 m2 h2 show ?thesis
    unfolding l p lp by (simp del: render_pages.simps)
qed

end
